theory Spec2Isabelle
  imports Main
begin

section \<open>Go strings, byte slices and formatting\<close>

text \<open>
  A Go \<^verbatim>\<open>string\<close> and a \<^verbatim>\<open>[]byte\<close> are both byte sequences; \<^typ>\<open>char\<close> is a byte.
  An \<^verbatim>\<open>error\<close> is only ever read through its \<^verbatim>\<open>Error()\<close> text in this program, so it is
  that text; \<^verbatim>\<open>nil\<close> is \<^term>\<open>None\<close> of \<^typ>\<open>string option\<close>, and a \<^verbatim>\<open>(value, err)\<close> result is a sum
  with the error on the left.
\<close>

type_synonym bytes = string
type_synonym error = string

text \<open>\<^verbatim>\<open>strings.HasSuffix\<close>: \<^verbatim>\<open>len(s) >= len(suffix) && s[len(s)-len(suffix):] == suffix\<close>.\<close>

definition HasSuffix :: "string \<Rightarrow> string \<Rightarrow> bool" where
  "HasSuffix s suf = (length suf \<le> length s \<and> drop (length s - length suf) s = suf)"

text \<open>\<^verbatim>\<open>strings.HasPrefix\<close>: \<^verbatim>\<open>len(s) >= len(prefix) && s[:len(prefix)] == prefix\<close>.\<close>

definition HasPrefix :: "string \<Rightarrow> string \<Rightarrow> bool" where
  "HasPrefix s pre = (length pre \<le> length s \<and> take (length pre) s = pre)"

text \<open>\<^verbatim>\<open>fmt.Sprintf("%d", n)\<close>: the decimal digits of an integer, with a minus sign when negative.\<close>

fun digits :: "nat \<Rightarrow> string" where
  "digits n = (if n < 10 then [''0123456789'' ! n]
               else digits (n div 10) @ [''0123456789'' ! (n mod 10)])"

declare digits.simps [simp del]

definition Sprintf_d :: "int \<Rightarrow> string" where
  "Sprintf_d n = (if n < 0 then CHR ''-'' # digits (nat (- n)) else digits (nat n))"

section \<open>The data model (types.go)\<close>

text \<open>
  Go's \<^verbatim>\<open>int\<close> and \<^verbatim>\<open>int64\<close> fields are \<^typ>\<open>int\<close>: the program copies them and never computes
  with them. A \<^verbatim>\<open>map[string]string\<close> is a map \<open>string \<rightharpoonup> string\<close>. A value of type
  \<^verbatim>\<open>interface{}\<close> is \<^term>\<open>None\<close> when nil and otherwise holds a dynamic value that the pipeline
  never inspects; that value and \<^verbatim>\<open>float32\<close> are left opaque.
\<close>

typedecl dyn
typedecl float32

record RequestDetails =
  APIKey :: string
  IPAddress :: string
  UserAgent :: string
  Headers :: "string \<rightharpoonup> string"
  Model :: string
  InputTokenLength :: int
  Endpoint :: string

record ValidationResponse =
  Valid :: bool
  RateLimited :: bool

record MetricsData =
  APIKey :: string
  Model :: string
  InputTokenLength :: int
  OutputTokenLength :: int
  RequestDurationMs :: int
  Endpoint :: string

text \<open>The anonymous struct \<^verbatim>\<open>Function\<close> of a tool call is flattened into its two fields.\<close>

record ToolCall =
  Function_Name :: string
  Function_Arguments :: "dyn option"

record ChatMessage =
  Role :: string
  Content :: string
  Images :: "string list"
  ToolCalls :: "ToolCall list"

record ChatRequest =
  Model :: string
  Messages :: "ChatMessage list"
  Stream :: bool
  Format :: "dyn option"
  Options :: "dyn option"

record GenerateRequest =
  Model :: string
  Prompt :: string
  Stream :: bool
  Format :: "dyn option"
  Options :: "dyn option"
  Images :: "string list"

record EmbedRequest =
  Model :: string
  Input :: "dyn option"
  Options :: "dyn option"

record CreateRequest =
  Model :: string
  From :: string
  Files :: "string \<rightharpoonup> string"
  Adapters :: "string \<rightharpoonup> string"
  Template :: string
  License :: "dyn option"
  System :: string
  Parameters :: "dyn option"
  Messages :: "ChatMessage list"
  Stream :: bool
  Quantize :: string

record ChatResponse =
  Model :: string
  CreatedAt :: string
  Message :: ChatMessage
  Done :: bool
  DoneReason :: string
  TotalDuration :: int
  LoadDuration :: int
  PromptEvalCount :: int
  EvalCount :: int
  EvalDuration :: int

record GenerateResponse =
  Model :: string
  CreatedAt :: string
  Response :: string
  Done :: bool
  DoneReason :: string
  TotalDuration :: int
  LoadDuration :: int
  PromptEvalCount :: int
  EvalCount :: int
  EvalDuration :: int

record EmbedResponse =
  Model :: string
  Embeddings :: "float32 list list"
  TotalDuration :: int
  LoadDuration :: int
  PromptEvalCount :: int

section \<open>The standard library's JSON decoder\<close>

text \<open>
  \<^verbatim>\<open>encoding/json\<close> is not part of the repository. Its decoder is a parameter of the model:
  one function per target type of \<^verbatim>\<open>json.Unmarshal\<close>, returning the error or the filled struct.
\<close>

record json =
  Unmarshal_ChatRequest :: "bytes \<Rightarrow> error + ChatRequest"
  Unmarshal_GenerateRequest :: "bytes \<Rightarrow> error + GenerateRequest"
  Unmarshal_EmbedRequest :: "bytes \<Rightarrow> error + EmbedRequest"
  Unmarshal_CreateRequest :: "bytes \<Rightarrow> error + CreateRequest"
  Unmarshal_ChatResponse :: "bytes \<Rightarrow> error + ChatResponse"
  Unmarshal_GenerateResponse :: "bytes \<Rightarrow> error + GenerateResponse"
  Unmarshal_EmbedResponse :: "bytes \<Rightarrow> error + EmbedResponse"
  Decode_ValidationResponse :: "bytes \<Rightarrow> error + ValidationResponse"
  Marshal_RequestDetails :: "RequestDetails \<Rightarrow> error + bytes"

section \<open>Model and token extraction\<close>

text \<open>
  \<^verbatim>\<open>getModelFromRequest\<close>: a \<^verbatim>\<open>switch\<close> without a tag takes the first case whose condition
  holds; a case whose \<^verbatim>\<open>Unmarshal\<close> fails falls out of the switch to \<^verbatim>\<open>return ""\<close>.
\<close>

definition getModelFromRequest :: "('j) json_scheme \<Rightarrow> string \<Rightarrow> bytes \<Rightarrow> string" where
  "getModelFromRequest js path body =
    (if HasSuffix path ''/api/chat'' then
       (case Unmarshal_ChatRequest js body of
          Inr chatReq \<Rightarrow> ChatRequest.Model chatReq | Inl err \<Rightarrow> '''')
     else if HasSuffix path ''/api/generate'' then
       (case Unmarshal_GenerateRequest js body of
          Inr genReq \<Rightarrow> GenerateRequest.Model genReq | Inl err \<Rightarrow> '''')
     else if HasSuffix path ''/api/embed'' then
       (case Unmarshal_EmbedRequest js body of
          Inr embedReq \<Rightarrow> EmbedRequest.Model embedReq | Inl err \<Rightarrow> '''')
     else if HasSuffix path ''/api/create'' then
       (case Unmarshal_CreateRequest js body of
          Inr createReq \<Rightarrow> CreateRequest.Model createReq | Inl err \<Rightarrow> '''')
     else '''')"

text \<open>
  \<^verbatim>\<open>getTokenCountsFromResponse\<close>: both counters start at zero and are assigned only in a
  case whose \<^verbatim>\<open>Unmarshal\<close> succeeds. The switch has three cases; there is none for
  \<^verbatim>\<open>/api/create\<close>.
\<close>

definition getTokenCountsFromResponse :: "('j) json_scheme \<Rightarrow> string \<Rightarrow> bytes \<Rightarrow> int \<times> int" where
  "getTokenCountsFromResponse js path responseBody =
    (if HasSuffix path ''/api/chat'' then
       (case Unmarshal_ChatResponse js responseBody of
          Inr chatResp \<Rightarrow>
            (ChatResponse.PromptEvalCount chatResp, ChatResponse.EvalCount chatResp)
        | Inl err \<Rightarrow> (0, 0))
     else if HasSuffix path ''/api/generate'' then
       (case Unmarshal_GenerateResponse js responseBody of
          Inr genResp \<Rightarrow>
            (GenerateResponse.PromptEvalCount genResp, GenerateResponse.EvalCount genResp)
        | Inl err \<Rightarrow> (0, 0))
     else if HasSuffix path ''/api/embed'' then
       (case Unmarshal_EmbedResponse js responseBody of
          Inr embedResp \<Rightarrow> (EmbedResponse.PromptEvalCount embedResp, 0)
        | Inl err \<Rightarrow> (0, 0))
     else (0, 0))"

section \<open>URL rewriting of the reverse proxy\<close>

text \<open>The fields of \<^verbatim>\<open>url.URL\<close> that the program reads or writes.\<close>

record URL =
  Scheme :: string
  Host :: string
  Path :: string
  RawQuery :: string

text \<open>\<^verbatim>\<open>singleJoiningSlash\<close>; \<^verbatim>\<open>b[1:]\<close> is only evaluated when \<^verbatim>\<open>b\<close> starts with a slash.\<close>

definition singleJoiningSlash :: "string \<Rightarrow> string \<Rightarrow> string" where
  "singleJoiningSlash a b =
    (let aslash = HasSuffix a ''/'';
         bslash = HasPrefix b ''/''
     in if aslash \<and> bslash then a @ drop 1 b
        else if \<not> aslash \<and> \<not> bslash then a @ ''/'' @ b
        else a @ b)"

text \<open>
  The \<^verbatim>\<open>Director\<close> closure built in \<^verbatim>\<open>getReverseProxy\<close>: it captures the parsed backend URL
  and rewrites the URL of the outgoing request.
\<close>

definition Director :: "URL \<Rightarrow> URL \<Rightarrow> URL" where
  "Director targetURL reqURL =
    reqURL\<lparr>Scheme := Scheme targetURL,
           Host := Host targetURL,
           Path := singleJoiningSlash (Path targetURL) (Path reqURL),
           RawQuery :=
             (if RawQuery targetURL = '''' \<or> RawQuery reqURL = ''''
              then RawQuery targetURL @ RawQuery reqURL
              else RawQuery targetURL @ ''&'' @ RawQuery reqURL)\<rparr>"

section \<open>HTTP messages\<close>

text \<open>
  An \<^verbatim>\<open>http.Header\<close> is a \<^verbatim>\<open>map[string][]string\<close>: an association list with distinct keys,
  looked up with \<^const>\<open>map_of\<close>. The list is kept, not a function, because the handler iterates
  over the map.
\<close>

type_synonym Header = "(string \<times> string list) list"

text \<open>
  \<^verbatim>\<open>Header.Get\<close>: the first value under the canonical form of the key, or the empty string
  when the key is absent or has no value. The canonical form is computed by
  \<^verbatim>\<open>textproto.CanonicalMIMEHeaderKey\<close>, a parameter here.
\<close>

definition Header_Get :: "(string \<Rightarrow> string) \<Rightarrow> Header \<Rightarrow> string \<Rightarrow> string" where
  "Header_Get canon h key =
    (case map_of h (canon key) of
       None \<Rightarrow> ''''
     | Some [] \<Rightarrow> ''''
     | Some (v # vs) \<Rightarrow> v)"

text \<open>\<^verbatim>\<open>Header.Set\<close>: the canonical key is bound to the single value.\<close>

fun Header_put :: "string \<Rightarrow> string \<Rightarrow> Header \<Rightarrow> Header" where
  "Header_put k v [] = [(k, [v])]"
| "Header_put k v ((k', vs) # rest) =
     (if k' = k then (k, [v]) # rest else (k', vs) # Header_put k v rest)"

definition Header_Set :: "(string \<Rightarrow> string) \<Rightarrow> Header \<Rightarrow> string \<Rightarrow> string \<Rightarrow> Header" where
  "Header_Set canon h key v = Header_put (canon key) v h"

text \<open>
  An \<^verbatim>\<open>http.Request\<close>, inbound or outbound. \<open>Body\<close> is what \<^verbatim>\<open>io.ReadAll\<close> returns on the
  body stream: the bytes read and the error that stopped the read, if any.
\<close>

record Request =
  Method :: string
  URL :: URL
  Header :: Header
  Body :: "bytes \<times> error option"
  RemoteAddr :: string

definition io_ReadAll :: "bytes \<times> error option \<Rightarrow> bytes \<times> error option" where
  "io_ReadAll stream = stream"

record Response =
  StatusCode :: int
  Body :: bytes

text \<open>The \<^verbatim>\<open>http.Client\<close> built by \<^verbatim>\<open>getSecureHTTPClient\<close>; the timeout is in nanoseconds.\<close>

typedecl Certificate

record Client =
  InsecureSkipVerify :: bool
  Certificates :: "Certificate list"
  Timeout :: int

section \<open>The response writer of the client and code that writes to it\<close>

text \<open>
  The \<^verbatim>\<open>http.ResponseWriter\<close> handed to the handler is an interface value of the server. It is
  modelled by the calls it has received, in order: that is what the client is sent. What
  its \<^verbatim>\<open>Write\<close> returns is decided outside the program and is a parameter: a function of the
  calls received so far and of the bytes written. Response header fields are not modelled.
\<close>

datatype writer_call = WriteHeader int | Write bytes

type_synonym ResponseWriter = "writer_call list"
type_synonym write_result = "nat \<times> error option"

definition ResponseWriter_Write ::
  "(ResponseWriter \<Rightarrow> bytes \<Rightarrow> write_result) \<Rightarrow> ResponseWriter \<Rightarrow> bytes \<Rightarrow> write_result \<times> ResponseWriter" where
  "ResponseWriter_Write result rw b = (result rw b, rw @ [Write b])"

definition ResponseWriter_WriteHeader :: "ResponseWriter \<Rightarrow> int \<Rightarrow> ResponseWriter" where
  "ResponseWriter_WriteHeader rw code = rw @ [WriteHeader code]"

text \<open>
  \<^verbatim>\<open>http.Error\<close>: the status code, then the message and a newline as the body. The result of
  the write is dropped.
\<close>

definition http_Error ::
  "(ResponseWriter \<Rightarrow> bytes \<Rightarrow> write_result) \<Rightarrow> ResponseWriter \<Rightarrow> string \<Rightarrow> int \<Rightarrow> ResponseWriter" where
  "http_Error result rw msg code =
     snd (ResponseWriter_Write result (ResponseWriter_WriteHeader rw code) (msg @ [CHR 0x0A]))"

text \<open>
  The \<^verbatim>\<open>responseWriter\<close> struct: the embedded writer, the capture buffer and the status code
  (zero until \<^verbatim>\<open>WriteHeader\<close> is called). Its \<^verbatim>\<open>Header\<close> method returns the header map of the
  embedded writer.
\<close>

record responseWriter =
  ResponseWriter :: ResponseWriter
  body :: bytes
  statusCode :: int

definition responseWriter_Write ::
  "(ResponseWriter \<Rightarrow> bytes \<Rightarrow> write_result) \<Rightarrow> responseWriter \<Rightarrow> bytes \<Rightarrow> write_result \<times> responseWriter" where
  "responseWriter_Write result rw b =
    (let rw1 = rw\<lparr>body := body rw @ b\<rparr>;
         (res, under) = ResponseWriter_Write result (ResponseWriter rw1) b
     in (res, rw1\<lparr>ResponseWriter := under\<rparr>))"

definition responseWriter_WriteHeader :: "responseWriter \<Rightarrow> int \<Rightarrow> responseWriter" where
  "responseWriter_WriteHeader rw code =
    (let rw1 = rw\<lparr>statusCode := code\<rparr>
     in rw1\<lparr>ResponseWriter := ResponseWriter_WriteHeader (ResponseWriter rw1) code\<rparr>)"

text \<open>
  Code that is handed a response writer, such as \<^verbatim>\<open>ReverseProxy.ServeHTTP\<close>, is a script of
  calls on it: it sets the status code and goes on, or writes bytes and goes on in a way
  that may depend on what the write returned, or it ends. It ends in one of three ways: it
  returns to its caller; it aborts the calling handler with a panic of its own, as the
  reverse proxy does with \<^verbatim>\<open>http.ErrAbortHandler\<close> when copying the body of the response fails
  under a server; or it blocks and never returns, as the reverse proxy may since the call
  has no timeout. \<open>run\<close> gives the writer as the script leaves it and \<open>ends\<close> how the
  script ends, against an implementation of the two methods.
\<close>

datatype ending = Returns | Aborts | Blocks

datatype script =
    Return
  | Abort
  | Block
  | CallWriteHeader int script
  | CallWrite bytes "write_result \<Rightarrow> script"

primrec run :: "script \<Rightarrow> ('s \<Rightarrow> int \<Rightarrow> 's) \<Rightarrow> ('s \<Rightarrow> bytes \<Rightarrow> write_result \<times> 's) \<Rightarrow> 's \<Rightarrow> 's" where
  "run Return wh wr s = s"
| "run Abort wh wr s = s"
| "run Block wh wr s = s"
| "run (CallWriteHeader code k) wh wr s = run k wh wr (wh s code)"
| "run (CallWrite b k) wh wr s = (let (res, s') = wr s b in run (k res) wh wr s')"

primrec ends :: "script \<Rightarrow> ('s \<Rightarrow> int \<Rightarrow> 's) \<Rightarrow> ('s \<Rightarrow> bytes \<Rightarrow> write_result \<times> 's) \<Rightarrow> 's \<Rightarrow> ending" where
  "ends Return wh wr s = Returns"
| "ends Abort wh wr s = Aborts"
| "ends Block wh wr s = Blocks"
| "ends (CallWriteHeader code k) wh wr s = ends k wh wr (wh s code)"
| "ends (CallWrite b k) wh wr s = (let (res, s') = wr s b in ends (k res) wh wr s')"

text \<open>The payloads written and the last status code set, read off a list of calls.\<close>

fun written :: "writer_call list \<Rightarrow> bytes" where
  "written [] = []"
| "written (Write b # cs) = b @ written cs"
| "written (WriteHeader code # cs) = written cs"

fun last_status :: "int \<Rightarrow> writer_call list \<Rightarrow> int" where
  "last_status c [] = c"
| "last_status c (WriteHeader code # cs) = last_status code cs"
| "last_status c (Write b # cs) = last_status c cs"

section \<open>Everything outside the program\<close>

text \<open>
  The libraries and the network, as parameters: the JSON codec, header canonicalisation, URL
  parsing, certificate loading, the answer to a request sent through a client (an error or
  a response), what the reverse proxy does with the response writer for a given outgoing
  request, what the client's writer returns on a write, the successive readings of the
  clock in nanoseconds, the error \<^verbatim>\<open>ListenAndServe\<close> returns (none while it keeps serving),
  and the loading of the \<^verbatim>\<open>.env\<close> file into the environment.
\<close>

record world = json +
  CanonicalMIMEHeaderKey :: "string \<Rightarrow> string"
  url_Parse :: "string \<Rightarrow> error + URL"
  LoadX509KeyPair :: "string \<Rightarrow> string \<Rightarrow> error + Certificate"
  client_Do :: "Client \<Rightarrow> Request \<Rightarrow> error + Response"
  proxy_script :: "Request \<Rightarrow> script"
  Write_result :: "ResponseWriter \<Rightarrow> bytes \<Rightarrow> write_result"
  UnixNano :: "nat \<Rightarrow> int"
  ListenAndServe_error :: "string \<Rightarrow> error option"
  godotenv_Load :: "(string \<Rightarrow> string) \<Rightarrow> error + (string \<Rightarrow> string)"

section \<open>Configuration, process state and observable events\<close>

record config =
  ollamaURL :: string
  externalValidationURL :: string
  externalMetricsURL :: string
  apiKeyHeaderName :: string
  proxyPort :: string
  externalServerAPIKey :: string
  externalServerCert :: string
  skipTLSVerify :: bool

datatype LogLevel = DEBUG | INFO | WARNING | ERROR

text \<open>The values the program stores in a \<^verbatim>\<open>map[string]interface{}\<close> of log fields.\<close>

datatype field_value = StringValue string | IntValue int

text \<open>A \<^verbatim>\<open>LogEntry\<close>; the timestamp is the raw clock reading, before formatting.\<close>

record LogEntry =
  Timestamp :: int
  Level :: LogLevel
  Message :: string
  Fields :: "string \<rightharpoonup> field_value"

text \<open>
  What a run does that can be seen from outside, in order: a line of the structured logger,
  a line of the standard logger, a request sent through a client, the call of
  \<^verbatim>\<open>validateRequest\<close> with its argument, the request handed to the reverse proxy, the start of
  the \<^verbatim>\<open>sendMetrics\<close> goroutine with its argument, \<^verbatim>\<open>log.Fatalf\<close>, \<^verbatim>\<open>os.Exit\<close>, the registration
  of the handler and the call of \<^verbatim>\<open>ListenAndServe\<close>.
\<close>

datatype event =
    Println LogEntry
  | Printf string
  | Do Client Request
  | Call_validateRequest RequestDetails
  | ServeHTTP Request
  | Go_sendMetrics MetricsData
  | Fatalf string
  | Exit int
  | HandleFunc string
  | ListenAndServe string

text \<open>
  The mutable state: the \<^verbatim>\<open>reverseProxy\<close> variable guarded by \<^verbatim>\<open>proxyOnce\<close> (a proxy is its
  \<^verbatim>\<open>Director\<close> function; \<^term>\<open>None\<close> until the first call of \<^verbatim>\<open>getReverseProxy\<close>), the number of
  clock readings taken, and the events so far.
\<close>

record state =
  reverseProxy :: "(URL \<Rightarrow> URL) option"
  clock :: nat
  trace :: "event list"

definition emit :: "event \<Rightarrow> state \<Rightarrow> state" where
  "emit e s = s\<lparr>trace := trace s @ [e]\<rparr>"

definition time_Now :: "'w world_scheme \<Rightarrow> state \<Rightarrow> int \<times> state" where
  "time_Now w s = (UnixNano w (clock s), s\<lparr>clock := Suc (clock s)\<rparr>)"

definition time_Since :: "'w world_scheme \<Rightarrow> int \<Rightarrow> state \<Rightarrow> int \<times> state" where
  "time_Since w t s = (let (now, s') = time_Now w s in (now - t, s'))"

text \<open>\<^verbatim>\<open>Duration.Milliseconds\<close>: integer division by \<open>10\<^sup>6\<close>, truncating towards zero.\<close>

definition Milliseconds :: "int \<Rightarrow> int" where
  "Milliseconds d = (if d < 0 then - ((- d) div 1000000) else d div 1000000)"

section \<open>The logger package\<close>

definition Log :: "'w world_scheme \<Rightarrow> LogLevel \<Rightarrow> string \<Rightarrow> (string \<rightharpoonup> field_value) \<Rightarrow> state \<Rightarrow> state" where
  "Log w level message fs s =
    (let (now, s') = time_Now w s
     in emit (Println \<lparr>Timestamp = now, Level = level, Message = message, Fields = fs\<rparr>) s')"

definition Info :: "'w world_scheme \<Rightarrow> string \<Rightarrow> (string \<rightharpoonup> field_value) \<Rightarrow> state \<Rightarrow> state" where
  "Info w message fs s = Log w INFO message fs s"

definition Warning :: "'w world_scheme \<Rightarrow> string \<Rightarrow> (string \<rightharpoonup> field_value) \<Rightarrow> state \<Rightarrow> state" where
  "Warning w message fs s = Log w WARNING message fs s"

text \<open>\<^verbatim>\<open>logger.Error\<close>; a nil map of fields is the empty map.\<close>

definition Error ::
  "'w world_scheme \<Rightarrow> string \<Rightarrow> error option \<Rightarrow> (string \<rightharpoonup> field_value) \<Rightarrow> state \<Rightarrow> state" where
  "Error w message err fs s =
    Log w ERROR message
      (case err of None \<Rightarrow> fs | Some e \<Rightarrow> fs(''error'' \<mapsto> StringValue e)) s"

definition RequestLog ::
  "'w world_scheme \<Rightarrow> string \<Rightarrow> string \<Rightarrow> string \<Rightarrow> int \<Rightarrow> int \<Rightarrow> (string \<rightharpoonup> field_value) \<Rightarrow> state \<Rightarrow> state" where
  "RequestLog w method path remoteAddr code duration fs s =
    (let fs' = fs(''method'' \<mapsto> StringValue method,
                          ''path'' \<mapsto> StringValue path,
                          ''remote_addr'' \<mapsto> StringValue remoteAddr,
                          ''status_code'' \<mapsto> IntValue code,
                          ''duration_ms'' \<mapsto> IntValue (Milliseconds duration));
         level = (if code \<ge> 400 then ERROR else if code \<ge> 300 then WARNING else INFO)
     in Log w level (method @ '' '' @ path @ '' '' @ Sprintf_d code) fs' s)"

section \<open>Outbound calls\<close>

text \<open>
  \<^verbatim>\<open>getSecureHTTPClient\<close>: the TLS settings, the certificate when one is configured and loads,
  and the fixed timeout of ten seconds. A certificate that fails to load is reported on the
  standard logger and the client is built without it.
\<close>

definition getSecureHTTPClient :: "config \<Rightarrow> 'w world_scheme \<Rightarrow> state \<Rightarrow> Client \<times> state" where
  "getSecureHTTPClient cfg w s =
    (let client = \<lparr>InsecureSkipVerify = skipTLSVerify cfg, Certificates = [],
                    Timeout = 10 * 1000000000\<rparr>
     in if externalServerCert cfg \<noteq> '''' then
          (case LoadX509KeyPair w (externalServerCert cfg) (externalServerCert cfg) of
             Inl err \<Rightarrow> (client, emit (Printf (''Warning: Failed to load certificate: '' @ err)) s)
           | Inr cert \<Rightarrow> (client\<lparr>Certificates := [cert]\<rparr>, s))
        else (client, s))"

text \<open>
  \<^verbatim>\<open>http.NewRequest\<close> with one of the constant methods \<^verbatim>\<open>GET\<close> and \<^verbatim>\<open>POST\<close>: it fails exactly
  when the URL does not parse, with the parser's error.
\<close>

definition http_NewRequest :: "'w world_scheme \<Rightarrow> string \<Rightarrow> string \<Rightarrow> bytes \<Rightarrow> error + Request" where
  "http_NewRequest w method url payload =
    (case url_Parse w url of
       Inl err \<Rightarrow> Inl err
     | Inr u \<Rightarrow> Inr \<lparr>Request.Method = method, Request.URL = u, Request.Header = [],
                     Request.Body = (payload, None), Request.RemoteAddr = ''''\<rparr>)"

text \<open>\<^verbatim>\<open>client.Do\<close>: the request goes out and the world answers.\<close>

definition Client_Do :: "'w world_scheme \<Rightarrow> Client \<Rightarrow> Request \<Rightarrow> state \<Rightarrow> (error + Response) \<times> state" where
  "Client_Do w client req s = (client_Do w client req, emit (Do client req) s)"

text \<open>\<^verbatim>\<open>client.Get\<close>: \<^verbatim>\<open>NewRequest("GET", url, nil)\<close>, then \<^verbatim>\<open>Do\<close>.\<close>

definition Client_Get :: "'w world_scheme \<Rightarrow> Client \<Rightarrow> string \<Rightarrow> state \<Rightarrow> (error + Response) \<times> state" where
  "Client_Get w client url s =
    (case http_NewRequest w ''GET'' url [] of
       Inl err \<Rightarrow> (Inl err, s)
     | Inr req \<Rightarrow> Client_Do w client req s)"

text \<open>The two security headers of the probes; \<^verbatim>\<open>validateRequest\<close> sets the content type first.\<close>

definition security_headers :: "config \<Rightarrow> 'w world_scheme \<Rightarrow> Request \<Rightarrow> state \<Rightarrow> Request \<times> state" where
  "security_headers cfg w req s =
    (let h1 = Header_Set (CanonicalMIMEHeaderKey w) (Request.Header req)
                ''X-API-Key'' (externalServerAPIKey cfg);
         (now, s') = time_Now w s;
         h2 = Header_Set (CanonicalMIMEHeaderKey w) h1 ''X-Request-ID'' (Sprintf_d now)
     in (req\<lparr>Request.Header := h2\<rparr>, s'))"

section \<open>The validation gateway\<close>

definition validateRequest :: "config \<Rightarrow> 'w world_scheme \<Rightarrow> RequestDetails \<Rightarrow> state \<Rightarrow> bool \<times> state" where
  "validateRequest cfg w details s =
    (let fs = [''api_key'' \<mapsto> StringValue (RequestDetails.APIKey details),
               ''endpoint'' \<mapsto> StringValue (RequestDetails.Endpoint details)]
     in case Marshal_RequestDetails w details of
       Inl err \<Rightarrow> (False, Error w ''Error marshaling validation request'' (Some err) fs s)
     | Inr jsonData \<Rightarrow>
      (case http_NewRequest w ''POST'' (externalValidationURL cfg) jsonData of
         Inl err \<Rightarrow> (False, Error w ''Error creating validation request'' (Some err) fs s)
       | Inr req0 \<Rightarrow>
          (let req1 = req0\<lparr>Request.Header :=
                        Header_Set (CanonicalMIMEHeaderKey w) (Request.Header req0)
                          ''Content-Type'' ''application/json''\<rparr>;
               (req, s1) = security_headers cfg w req1 s;
               (client, s2) = getSecureHTTPClient cfg w s1;
               (res, s3) = Client_Do w client req s2
           in case res of
                Inl err \<Rightarrow> (False, Error w ''Error calling validation server'' (Some err) fs s3)
              | Inr resp \<Rightarrow>
                  if StatusCode resp \<noteq> 200 then
                    (False, Warning w ''Validation server returned non-OK status''
                              (fs(''status_code'' \<mapsto> IntValue (StatusCode resp))) s3)
                  else
                    (case Decode_ValidationResponse w (Response.Body resp) of
                       Inl err \<Rightarrow>
                         (False, Error w ''Error decoding validation response'' (Some err) fs s3)
                     | Inr validationResp \<Rightarrow>
                         (Valid validationResp \<and> \<not> RateLimited validationResp, s3)))))"

section \<open>The reverse proxy\<close>

text \<open>
  \<^verbatim>\<open>getReverseProxy\<close>: the body of \<^verbatim>\<open>proxyOnce.Do\<close> runs while the variable is unset. When the
  backend URL does not parse, \<^verbatim>\<open>log.Fatalf\<close> ends the process: the result is \<^term>\<open>None\<close>.
\<close>

definition getReverseProxy :: "config \<Rightarrow> 'w world_scheme \<Rightarrow> state \<Rightarrow> (URL \<Rightarrow> URL) option \<times> state" where
  "getReverseProxy cfg w s =
    (case reverseProxy s of
       Some proxy \<Rightarrow> (Some proxy, s)
     | None \<Rightarrow>
        (case url_Parse w (ollamaURL cfg) of
           Inl err \<Rightarrow> (None, emit (Fatalf (''Failed to parse Ollama URL: '' @ err)) s)
         | Inr targetURL \<Rightarrow>
             (Some (Director targetURL), s\<lparr>reverseProxy := Some (Director targetURL)\<rparr>)))"

text \<open>
  \<^verbatim>\<open>proxy.ServeHTTP(rw, req)\<close>: the library applies the director to a copy of the request
  (the inbound request keeps its URL), sends it, and drives the writer it was handed. The
  result holds how the call ended, the writer as the call left it and the state.
\<close>

definition ReverseProxy_ServeHTTP ::
  "'w world_scheme \<Rightarrow> (URL \<Rightarrow> URL) \<Rightarrow> responseWriter \<Rightarrow> Request \<Rightarrow> state
     \<Rightarrow> ending \<times> responseWriter \<times> state" where
  "ReverseProxy_ServeHTTP w director rw req s =
    (let outreq = req\<lparr>Request.URL := director (Request.URL req)\<rparr>
     in (ends (proxy_script w outreq) responseWriter_WriteHeader
           (responseWriter_Write (Write_result w)) rw,
         run (proxy_script w outreq) responseWriter_WriteHeader
           (responseWriter_Write (Write_result w)) rw,
         emit (ServeHTTP outreq) s))"

section \<open>The request pipeline\<close>

text \<open>
  The loop that copies the first value of every header into \<^verbatim>\<open>details.Headers\<close>. Indexing
  an empty slice of values with \<^verbatim>\<open>v[0]\<close> panics: the result is \<^term>\<open>None\<close>.
\<close>

fun copyHeaders :: "Header \<Rightarrow> (string \<rightharpoonup> string) \<Rightarrow> (string \<rightharpoonup> string) option" where
  "copyHeaders [] m = Some m"
| "copyHeaders ((k, []) # rest) m = None"
| "copyHeaders ((k, x # xs) # rest) m = copyHeaders rest (m(k \<mapsto> x))"

text \<open>
  How the handler ends: it returns, it panics (the handler has no \<^verbatim>\<open>recover\<close>, so a panic in a
  call it makes unwinds it), it is blocked in a call that never returns, or the process is
  ended by \<^verbatim>\<open>log.Fatalf\<close>.
\<close>

datatype outcome = Returned | Panicked | Blocked | Exited

record handled =
  outcome :: outcome
  client :: ResponseWriter
  final :: state

text \<open>
  \<^verbatim>\<open>proxyHandler\<close>, statement by statement. The result holds how the handler ended, the
  writer of the client and the state of the process.
\<close>

definition proxyHandler :: "config \<Rightarrow> 'w world_scheme \<Rightarrow> ResponseWriter \<Rightarrow> Request \<Rightarrow> state \<Rightarrow> handled" where
  "proxyHandler cfg w rw0 r s0 =
    (let (startTime, s1) = time_Now w s0;
         path = Path (Request.URL r);
         fs0 = [''user_agent'' \<mapsto>
                   StringValue (Header_Get (CanonicalMIMEHeaderKey w) (Request.Header r) ''User-Agent''),
                ''endpoint'' \<mapsto> StringValue path];
         apiKey = Header_Get (CanonicalMIMEHeaderKey w) (Request.Header r) (apiKeyHeaderName cfg)
     in if apiKey = '''' then
          \<lparr>outcome = Returned,
           client = http_Error (Write_result w) rw0 ''Unauthorized: Missing API key'' 401,
           final = Warning w ''Unauthorized: Missing API key'' fs0 s1\<rparr>
        else
          (let fs1 = fs0(''api_key'' \<mapsto> StringValue apiKey);
               details0 =
                 \<lparr>RequestDetails.APIKey = apiKey,
                  RequestDetails.IPAddress = Request.RemoteAddr r,
                  RequestDetails.UserAgent =
                    Header_Get (CanonicalMIMEHeaderKey w) (Request.Header r) ''User-Agent'',
                  RequestDetails.Headers = Map.empty,
                  RequestDetails.Model = '''',
                  RequestDetails.InputTokenLength = 0,
                  RequestDetails.Endpoint = path\<rparr>
           in case copyHeaders (Request.Header r) (RequestDetails.Headers details0) of
                None \<Rightarrow> \<lparr>outcome = Panicked, client = rw0, final = s1\<rparr>
              | Some hs \<Rightarrow>
                 (case io_ReadAll (Request.Body r) of
                    (bodyBytes, Some err) \<Rightarrow>
                      \<lparr>outcome = Returned,
                       client = http_Error (Write_result w) rw0 ''Error reading request body'' 400,
                       final = Error w ''Error reading request body'' (Some err) fs1 s1\<rparr>
                  | (bodyBytes, None) \<Rightarrow>
                     (let r1 = r\<lparr>Request.Body := (bodyBytes, None)\<rparr>;
                          details = details0\<lparr>RequestDetails.Headers := hs,
                                      RequestDetails.Model := getModelFromRequest w path bodyBytes\<rparr>;
                          fs2 = fs1(''model'' \<mapsto> StringValue (RequestDetails.Model details));
                          (ok, s2) = validateRequest cfg w details
                                       (emit (Call_validateRequest details) s1)
                      in if \<not> ok then
                           \<lparr>outcome = Returned,
                            client = http_Error (Write_result w) rw0
                                       ''Unauthorized: Invalid request'' 401,
                            final = Warning w ''Unauthorized: Invalid request'' fs2 s2\<rparr>
                         else
                           (let rw = \<lparr>ResponseWriter = rw0, body = [], statusCode = 0\<rparr>
                            in case getReverseProxy cfg w s2 of
                                 (None, s3) \<Rightarrow> \<lparr>outcome = Exited, client = rw0, final = s3\<rparr>
                               | (Some proxy, s3) \<Rightarrow>
                                 (case ReverseProxy_ServeHTTP w proxy rw r1 s3 of
                                    (Aborts, rw', s4) \<Rightarrow>
                                      \<lparr>outcome = Panicked, client = ResponseWriter rw', final = s4\<rparr>
                                  | (Blocks, rw', s4) \<Rightarrow>
                                      \<lparr>outcome = Blocked, client = ResponseWriter rw', final = s4\<rparr>
                                  | (Returns, rw', s4) \<Rightarrow>
                                  (let (duration, s5) = time_Since w startTime s4;
                                       (inputTokens, outputTokens) =
                                          getTokenCountsFromResponse w path (body rw');
                                       fs3 = fs2(''input_tokens'' \<mapsto> IntValue inputTokens,
                                                 ''output_tokens'' \<mapsto> IntValue outputTokens,
                                                 ''duration_ms'' \<mapsto> IntValue (Milliseconds duration));
                                       s6 = RequestLog w (Request.Method r) path (Request.RemoteAddr r)
                                              (statusCode rw') duration fs3 s5;
                                       s7 = emit (Go_sendMetrics
                                              \<lparr>MetricsData.APIKey = apiKey,
                                               MetricsData.Model = RequestDetails.Model details,
                                               MetricsData.InputTokenLength = inputTokens,
                                               MetricsData.OutputTokenLength = outputTokens,
                                               MetricsData.RequestDurationMs = Milliseconds duration,
                                               MetricsData.Endpoint = RequestDetails.Endpoint details\<rparr>) s6
                                   in \<lparr>outcome = Returned, client = ResponseWriter rw',
                                       final = s7\<rparr>)))))))"

section \<open>The startup health check\<close>

definition validateOllamaService :: "config \<Rightarrow> 'w world_scheme \<Rightarrow> state \<Rightarrow> error option \<times> state" where
  "validateOllamaService cfg w s =
    (let (client, s1) = getSecureHTTPClient cfg w s;
         (res, s2) = Client_Get w client (ollamaURL cfg @ ''/api/tags'') s1
     in case res of
          Inl err \<Rightarrow>
            (Some (''failed to connect to Ollama service: '' @ err),
             Error w ''Failed to connect to Ollama service'' (Some err) Map.empty s2)
        | Inr resp \<Rightarrow>
            if StatusCode resp \<noteq> 200 then
              (Some (''Ollama service returned non-OK status: '' @ Sprintf_d (StatusCode resp)),
               Warning w ''Ollama service returned non-OK status''
                 [''status_code'' \<mapsto> IntValue (StatusCode resp)] s2)
            else (None, s2))"

definition validateExternalValidationService ::
  "config \<Rightarrow> 'w world_scheme \<Rightarrow> state \<Rightarrow> error option \<times> state" where
  "validateExternalValidationService cfg w s =
    (let (client, s1) = getSecureHTTPClient cfg w s
     in case http_NewRequest w ''GET'' (externalValidationURL cfg) [] of
          Inl err \<Rightarrow>
            (Some (''failed to create validation request: '' @ err),
             Error w ''Failed to create validation request'' (Some err) Map.empty s1)
        | Inr req0 \<Rightarrow>
           (let (req, s2) = security_headers cfg w req0 s1;
                (res, s3) = Client_Do w client req s2
            in case res of
                 Inl err \<Rightarrow>
                   (Some (''failed to connect to validation service: '' @ err),
                    Error w ''Failed to connect to validation service'' (Some err) Map.empty s3)
               | Inr resp \<Rightarrow>
                   if StatusCode resp \<noteq> 200 then
                     (Some (''validation service returned non-OK status: ''
                              @ Sprintf_d (StatusCode resp)),
                      Warning w ''Validation service returned non-OK status''
                        [''status_code'' \<mapsto> IntValue (StatusCode resp)] s3)
                   else (None, s3)))"

definition validateExternalMetricsService ::
  "config \<Rightarrow> 'w world_scheme \<Rightarrow> state \<Rightarrow> error option \<times> state" where
  "validateExternalMetricsService cfg w s =
    (let (client, s1) = getSecureHTTPClient cfg w s
     in case http_NewRequest w ''GET'' (externalMetricsURL cfg) [] of
          Inl err \<Rightarrow>
            (Some (''failed to create metrics request: '' @ err),
             Error w ''Failed to create metrics request'' (Some err) Map.empty s1)
        | Inr req0 \<Rightarrow>
           (let (req, s2) = security_headers cfg w req0 s1;
                (res, s3) = Client_Do w client req s2
            in case res of
                 Inl err \<Rightarrow>
                   (Some (''failed to connect to metrics service: '' @ err),
                    Error w ''Failed to connect to metrics service'' (Some err) Map.empty s3)
               | Inr resp \<Rightarrow>
                   if StatusCode resp \<noteq> 200 then
                     (Some (''metrics service returned non-OK status: ''
                              @ Sprintf_d (StatusCode resp)),
                      Warning w ''Metrics service returned non-OK status''
                        [''status_code'' \<mapsto> IntValue (StatusCode resp)] s3)
                   else (None, s3)))"

definition validateExternalServices :: "config \<Rightarrow> 'w world_scheme \<Rightarrow> state \<Rightarrow> error option \<times> state" where
  "validateExternalServices cfg w s =
    (case validateOllamaService cfg w s of
       (Some err, s1) \<Rightarrow> (Some (''Ollama service validation failed: '' @ err), s1)
     | (None, s1) \<Rightarrow>
        (case validateExternalValidationService cfg w s1 of
           (Some err, s2) \<Rightarrow>
             (Some (''External validation service validation failed: '' @ err), s2)
         | (None, s2) \<Rightarrow>
            (case validateExternalMetricsService cfg w s2 of
               (Some err, s3) \<Rightarrow>
                 (Some (''External metrics service validation failed: '' @ err), s3)
             | (None, s3) \<Rightarrow> (None, s3))))"

section \<open>Configuration loading and \<^verbatim>\<open>main\<close>\<close>

text \<open>The environment is \<^verbatim>\<open>os.Getenv\<close>: the empty string for a variable that is not set.\<close>

definition getEnvOrDefault :: "(string \<Rightarrow> string) \<Rightarrow> string \<Rightarrow> string \<Rightarrow> string" where
  "getEnvOrDefault env key defaultValue =
    (let v = env key in if v \<noteq> '''' then v else defaultValue)"

definition loadConfig :: "(string \<Rightarrow> string) \<Rightarrow> config" where
  "loadConfig env =
    \<lparr>ollamaURL = getEnvOrDefault env ''OLLAMA_URL'' ''http://localhost:11434'',
     externalValidationURL =
       getEnvOrDefault env ''EXTERNAL_VALIDATION_URL'' ''http://external-server.com/validate'',
     externalMetricsURL =
       getEnvOrDefault env ''EXTERNAL_METRICS_URL'' ''http://external-server.com/log_metrics'',
     apiKeyHeaderName = getEnvOrDefault env ''API_KEY_HEADER_NAME'' ''X-API-Key'',
     proxyPort = getEnvOrDefault env ''PROXY_PORT'' ''8080'',
     externalServerAPIKey = getEnvOrDefault env ''EXTERNAL_SERVER_API_KEY'' '''',
     externalServerCert = getEnvOrDefault env ''EXTERNAL_SERVER_CERT'' '''',
     skipTLSVerify = (getEnvOrDefault env ''SKIP_TLS_VERIFY'' ''false'' = ''true'')\<rparr>"

text \<open>The first part of \<^verbatim>\<open>main\<close>: the \<^verbatim>\<open>.env\<close> file outside production, then \<^verbatim>\<open>loadConfig\<close>.\<close>

definition main_config :: "(string \<Rightarrow> string) \<Rightarrow> 'w world_scheme \<Rightarrow> state \<Rightarrow> config \<times> state" where
  "main_config env w s =
    (if env ''GO_ENV'' \<noteq> ''production'' then
       (case godotenv_Load w env of
          Inl err \<Rightarrow>
            (loadConfig env,
             Warning w ''No .env file found or error loading .env''
               [''error'' \<mapsto> StringValue err] s)
        | Inr env' \<Rightarrow> (loadConfig env', s))
     else (loadConfig env, s))"

text \<open>
  \<^verbatim>\<open>main\<close>: the health check, then the registration of the handler and the listener.
  \<^verbatim>\<open>ListenAndServe\<close> returns only with an error.
\<close>

definition main :: "(string \<Rightarrow> string) \<Rightarrow> 'w world_scheme \<Rightarrow> state \<Rightarrow> state" where
  "main env w s =
    (let (cfg, s1) = main_config env w s
     in case validateExternalServices cfg w s1 of
          (Some err, s2) \<Rightarrow>
            emit (Exit 1) (Error w ''Failed to validate external services'' (Some err) Map.empty s2)
        | (None, s2) \<Rightarrow>
           (let s3 = emit (HandleFunc ''/'') s2;
                s4 = Info w ''Starting Ollama proxy server''
                       [''port'' \<mapsto> StringValue (proxyPort cfg)] s3;
                s5 = emit (ListenAndServe ('':'' @ proxyPort cfg)) s4
            in case ListenAndServe_error w ('':'' @ proxyPort cfg) of
                 None \<Rightarrow> s5
               | Some err \<Rightarrow>
                   emit (Exit 1) (Error w ''Failed to start server'' (Some err) Map.empty s5)))"

section \<open>Reading a run\<close>

text \<open>The events of a run that started in state \<open>s\<close> and ended in state \<open>s'\<close>.\<close>

definition events :: "state \<Rightarrow> state \<Rightarrow> event list" where
  "events s s' = drop (length (trace s)) (trace s')"

text \<open>
  The pipeline steps among the events: the details handed to \<^verbatim>\<open>validateRequest\<close>, the
  requests sent through a client, the requests handed to the reverse proxy, the metrics
  handed to \<^verbatim>\<open>sendMetrics\<close> goroutines, the listeners opened and the exit codes.
\<close>

definition validated :: "event list \<Rightarrow> RequestDetails list" where
  "validated es = concat (map (\<lambda>e. case e of Call_validateRequest d \<Rightarrow> [d] | _ \<Rightarrow> []) es)"

definition sent :: "event list \<Rightarrow> (Client \<times> Request) list" where
  "sent es = concat (map (\<lambda>e. case e of Do c req \<Rightarrow> [(c, req)] | _ \<Rightarrow> []) es)"

definition proxied :: "event list \<Rightarrow> Request list" where
  "proxied es = concat (map (\<lambda>e. case e of ServeHTTP req \<Rightarrow> [req] | _ \<Rightarrow> []) es)"

definition dispatched :: "event list \<Rightarrow> MetricsData list" where
  "dispatched es = concat (map (\<lambda>e. case e of Go_sendMetrics m \<Rightarrow> [m] | _ \<Rightarrow> []) es)"

definition listening :: "event list \<Rightarrow> string list" where
  "listening es = concat (map (\<lambda>e. case e of ListenAndServe addr \<Rightarrow> [addr] | _ \<Rightarrow> []) es)"

definition exits :: "event list \<Rightarrow> int list" where
  "exits es = concat (map (\<lambda>e. case e of Exit code \<Rightarrow> [code] | _ \<Rightarrow> []) es)"

text \<open>
  The decision rule of the validation gateway, read off the events and the world: a request
  was sent, the call succeeded, the status is exactly 200, the body decodes as a
  \<^verbatim>\<open>ValidationResponse\<close>, \<open>valid\<close> is true and \<open>rateLimited\<close> is false.
\<close>

definition verdict_ok :: "'w world_scheme \<Rightarrow> Client \<times> Request \<Rightarrow> bool" where
  "verdict_ok w call =
    (case client_Do w (fst call) (snd call) of
       Inl err \<Rightarrow> False
     | Inr resp \<Rightarrow>
         StatusCode resp = 200 \<and>
         (case Decode_ValidationResponse w (Response.Body resp) of
            Inl err \<Rightarrow> False
          | Inr v \<Rightarrow> Valid v \<and> \<not> RateLimited v))"

definition approved :: "'w world_scheme \<Rightarrow> event list \<Rightarrow> bool" where
  "approved w es = list_ex (verdict_ok w) (sent es)"

text \<open>A liveness probe succeeds when the call succeeds and the status is exactly 200.\<close>

definition probe_ok :: "'w world_scheme \<Rightarrow> Client \<times> Request \<Rightarrow> bool" where
  "probe_ok w call =
    (case client_Do w (fst call) (snd call) of
       Inl err \<Rightarrow> False
     | Inr resp \<Rightarrow> StatusCode resp = 200)"

text \<open>A request is the probe of a URL when it is a GET of that URL.\<close>

definition is_probe :: "'w world_scheme \<Rightarrow> string \<Rightarrow> Client \<times> Request \<Rightarrow> bool" where
  "is_probe w url call =
    (Request.Method (snd call) = ''GET'' \<and> url_Parse w url = Inr (Request.URL (snd call)))"

text \<open>The three probes of the health check, in the order of \<^verbatim>\<open>validateExternalServices\<close>.\<close>

definition probe_urls :: "config \<Rightarrow> string list" where
  "probe_urls cfg = [ollamaURL cfg @ ''/api/tags'', externalValidationURL cfg, externalMetricsURL cfg]"

text \<open>The proxy can be built: it exists already, or the configured backend URL parses.\<close>

definition proxy_available :: "config \<Rightarrow> 'w world_scheme \<Rightarrow> state \<Rightarrow> bool" where
  "proxy_available cfg w s =
    (case reverseProxy s of
       Some proxy \<Rightarrow> True
     | None \<Rightarrow> (case url_Parse w (ollamaURL cfg) of Inl err \<Rightarrow> False | Inr u \<Rightarrow> True))"

text \<open>
  The path and query rules of the reverse proxy as the specification words them: each side
  without its one trailing, respectively leading, slash, with one slash between them; the
  two queries with an ampersand between them when both are non-empty, and otherwise the one
  that is non-empty.
\<close>

definition without_trailing_slash :: "string \<Rightarrow> string" where
  "without_trailing_slash a = (if a \<noteq> [] \<and> last a = CHR ''/'' then butlast a else a)"

definition without_leading_slash :: "string \<Rightarrow> string" where
  "without_leading_slash b = (if b \<noteq> [] \<and> hd b = CHR ''/'' then tl b else b)"

definition spec_joined_path :: "string \<Rightarrow> string \<Rightarrow> string" where
  "spec_joined_path a b = without_trailing_slash a @ ''/'' @ without_leading_slash b"

definition spec_merged_query :: "string \<Rightarrow> string \<Rightarrow> string" where
  "spec_merged_query a b =
    (if a \<noteq> '''' \<and> b \<noteq> '''' then a @ ''&'' @ b else if a \<noteq> '''' then a else b)"

section \<open>A concrete deployment\<close>

text \<open>
  One world, configuration and request on which the definitions can be evaluated: the
  default configuration, a validation service that approves, and a backend that answers a
  chat request with status 200 and the two token counters.
\<close>

definition chat_body :: bytes where
  \<open>chat_body = ''{"model":"llama2","messages":[]}''\<close>

definition chat_response_body :: bytes where
  \<open>chat_response_body = ''{"prompt_eval_count":10,"eval_count":20}''\<close>

definition verdict_body :: bytes where
  \<open>verdict_body = ''{"valid":true,"rateLimited":false}''\<close>

definition limited_body :: bytes where
  \<open>limited_body = ''{"valid":true,"rateLimited":true}''\<close>

definition no_message :: ChatMessage where
  "no_message = \<lparr>Role = '''', Content = '''', ChatMessage.Images = [], ToolCalls = []\<rparr>"

definition example_json :: json where
  "example_json =
    \<lparr>Unmarshal_ChatRequest = (\<lambda>b. if b = chat_body then
         Inr \<lparr>ChatRequest.Model = ''llama2'', ChatRequest.Messages = [],
              ChatRequest.Stream = False, ChatRequest.Format = None,
              ChatRequest.Options = None\<rparr>
         else Inl ''invalid character''),
     Unmarshal_GenerateRequest = (\<lambda>b. if b = chat_body then
         Inr \<lparr>GenerateRequest.Model = ''llama2'', GenerateRequest.Prompt = '''',
              GenerateRequest.Stream = False, GenerateRequest.Format = None,
              GenerateRequest.Options = None, GenerateRequest.Images = []\<rparr>
         else Inl ''invalid character''),
     Unmarshal_EmbedRequest = (\<lambda>b. if b = chat_body then
         Inr \<lparr>EmbedRequest.Model = ''llama2'', EmbedRequest.Input = None,
              EmbedRequest.Options = None\<rparr>
         else Inl ''invalid character''),
     Unmarshal_CreateRequest = (\<lambda>b. if b = chat_body then
         Inr \<lparr>CreateRequest.Model = ''llama2'', CreateRequest.From = '''',
              CreateRequest.Files = Map.empty, CreateRequest.Adapters = Map.empty,
              CreateRequest.Template = '''', CreateRequest.License = None,
              CreateRequest.System = '''', CreateRequest.Parameters = None,
              CreateRequest.Messages = [], CreateRequest.Stream = False,
              CreateRequest.Quantize = ''''\<rparr>
         else Inl ''invalid character''),
     Unmarshal_ChatResponse = (\<lambda>b. if b = chat_response_body then
         Inr \<lparr>ChatResponse.Model = '''', ChatResponse.CreatedAt = '''',
              ChatResponse.Message = no_message, ChatResponse.Done = False,
              ChatResponse.DoneReason = '''', ChatResponse.TotalDuration = 0,
              ChatResponse.LoadDuration = 0, ChatResponse.PromptEvalCount = 10,
              ChatResponse.EvalCount = 20, ChatResponse.EvalDuration = 0\<rparr>
         else Inl ''invalid character''),
     Unmarshal_GenerateResponse = (\<lambda>b. if b = chat_response_body then
         Inr \<lparr>GenerateResponse.Model = '''', GenerateResponse.CreatedAt = '''',
              GenerateResponse.Response = '''', GenerateResponse.Done = False,
              GenerateResponse.DoneReason = '''', GenerateResponse.TotalDuration = 0,
              GenerateResponse.LoadDuration = 0, GenerateResponse.PromptEvalCount = 10,
              GenerateResponse.EvalCount = 20, GenerateResponse.EvalDuration = 0\<rparr>
         else Inl ''invalid character''),
     Unmarshal_EmbedResponse = (\<lambda>b. if b = chat_response_body then
         Inr \<lparr>EmbedResponse.Model = '''', EmbedResponse.Embeddings = [],
              EmbedResponse.TotalDuration = 0, EmbedResponse.LoadDuration = 0,
              EmbedResponse.PromptEvalCount = 10\<rparr>
         else Inl ''invalid character''),
     Decode_ValidationResponse = (\<lambda>b.
         if b = verdict_body then Inr \<lparr>Valid = True, RateLimited = False\<rparr>
         else if b = limited_body then Inr \<lparr>Valid = True, RateLimited = True\<rparr>
         else Inl ''EOF''),
     Marshal_RequestDetails = (\<lambda>d. Inr (''{apiKey:'' @ RequestDetails.APIKey d @ ''}''))\<rparr>"

definition example_urls :: "string \<Rightarrow> error + URL" where
  "example_urls u =
    (if u = ''http://localhost:11434'' then
       Inr \<lparr>Scheme = ''http'', Host = ''localhost:11434'', Path = '''', RawQuery = ''''\<rparr>
     else if u = ''http://localhost:11434/api/tags'' then
       Inr \<lparr>Scheme = ''http'', Host = ''localhost:11434'', Path = ''/api/tags'', RawQuery = ''''\<rparr>
     else if u = ''http://external-server.com/validate'' then
       Inr \<lparr>Scheme = ''http'', Host = ''external-server.com'', Path = ''/validate'', RawQuery = ''''\<rparr>
     else if u = ''http://external-server.com/log_metrics'' then
       Inr \<lparr>Scheme = ''http'', Host = ''external-server.com'', Path = ''/log_metrics'', RawQuery = ''''\<rparr>
     else Inl ''parse error'')"

definition example_world :: world where
  "example_world = json.extend example_json (world.fields
     (\<lambda>k. if k = ''X-API-Key'' then ''X-Api-Key''
          else if k = ''X-Request-ID'' then ''X-Request-Id'' else k)
     example_urls
     (\<lambda>certFile keyFile. Inl ''no certificate'')
     (\<lambda>client req.
        if Request.Method req = ''POST'' \<and> Path (Request.URL req) = ''/validate''
        then Inr \<lparr>StatusCode = 200, Response.Body = verdict_body\<rparr>
        else Inr \<lparr>StatusCode = 200, Response.Body = ''''\<rparr>)
     (\<lambda>req. CallWriteHeader 200 (CallWrite chat_response_body (\<lambda>res. Return)))
     (\<lambda>rw b. (length b, None))
     (\<lambda>n. 1700000000000000000 + 1000000 * int n)
     (\<lambda>addr. None)
     (\<lambda>env. Inl ''open .env: no such file or directory''))"

text \<open>The same world with a validation service that reports the key as rate limited.\<close>

definition limiting_world :: world where
  "limiting_world = example_world\<lparr>client_Do :=
     (\<lambda>client req. Inr \<lparr>StatusCode = 200, Response.Body = limited_body\<rparr>)\<rparr>"

text \<open>The same world with a backend that cannot be reached: the proxy answers 502.\<close>

definition failing_world :: world where
  "failing_world = example_world\<lparr>proxy_script := (\<lambda>req. CallWriteHeader 502 Return)\<rparr>"

text \<open>
  The same world with a backend whose connection breaks while the body of its answer is
  copied: the proxy has written the status and the first bytes, and aborts the handler.
\<close>

definition aborting_world :: world where
  "aborting_world = example_world\<lparr>proxy_script :=
     (\<lambda>req. CallWriteHeader 200 (CallWrite (take 20 chat_response_body) (\<lambda>res. Abort)))\<rparr>"

text \<open>The same world with a metrics service that answers the probe with status 401.\<close>

definition unhealthy_world :: world where
  "unhealthy_world = example_world\<lparr>client_Do :=
     (\<lambda>client req.
        if Path (Request.URL req) = ''/log_metrics''
        then Inr \<lparr>StatusCode = 401, Response.Body = ''''\<rparr>
        else Inr \<lparr>StatusCode = 200, Response.Body = ''''\<rparr>)\<rparr>"

definition example_config :: config where
  "example_config = loadConfig (\<lambda>key. '''')"

definition example_request :: Request where
  "example_request =
    \<lparr>Request.Method = ''POST'',
     Request.URL = \<lparr>Scheme = '''', Host = '''', Path = ''/api/chat'', RawQuery = ''''\<rparr>,
     Request.Header = [(''X-Api-Key'', [''test-api-key'']),
                       (''User-Agent'', [''curl/8.0''])],
     Request.Body = (chat_body, None),
     Request.RemoteAddr = ''10.0.0.7:51234''\<rparr>"

text \<open>The same request without the API key header.\<close>

definition anonymous_request :: Request where
  "anonymous_request = example_request\<lparr>Request.Header := [(''User-Agent'', [''curl/8.0''])]\<rparr>"

definition initial_state :: state where
  "initial_state = \<lparr>reverseProxy = None, clock = 0, trace = []\<rparr>"

section \<open>Suffixes and prefixes\<close>

lemma HasSuffix_iff: "HasSuffix s suf \<longleftrightarrow> (\<exists>xs. s = xs @ suf)"
  unfolding HasSuffix_def
proof
  assume "length suf \<le> length s \<and> drop (length s - length suf) s = suf"
  then have "s = take (length s - length suf) s @ suf"
    by (metis append_take_drop_id)
  then show "\<exists>xs. s = xs @ suf" ..
next
  assume "\<exists>xs. s = xs @ suf"
  then obtain xs where "s = xs @ suf" ..
  then show "length suf \<le> length s \<and> drop (length s - length suf) s = suf"
    by simp
qed

lemma HasSuffix_slash: "HasSuffix a ''/'' \<longleftrightarrow> a \<noteq> [] \<and> last a = CHR ''/''"
proof
  assume "HasSuffix a ''/''"
  then obtain xs where "a = xs @ ''/''"
    by (auto simp: HasSuffix_iff)
  then show "a \<noteq> [] \<and> last a = CHR ''/''"
    by simp
next
  assume "a \<noteq> [] \<and> last a = CHR ''/''"
  then have "a = butlast a @ ''/''"
    by (metis append_butlast_last_id)
  then show "HasSuffix a ''/''"
    unfolding HasSuffix_iff ..
qed

lemma HasPrefix_slash: "HasPrefix b ''/'' \<longleftrightarrow> b \<noteq> [] \<and> hd b = CHR ''/''"
  by (cases b) (auto simp: HasPrefix_def)

text \<open>Two suffixes of one string: the shorter is a suffix of the longer.\<close>

lemma HasSuffix_two:
  assumes "HasSuffix s b" and "HasSuffix s a" and "length a \<le> length b"
  shows "HasSuffix b a"
proof -
  from assms(2) obtain xs where xs: "s = xs @ a"
    by (auto simp: HasSuffix_iff)
  from assms(1) obtain ys where ys: "s = ys @ b"
    by (auto simp: HasSuffix_iff)
  from xs ys have "xs @ a = ys @ b"
    by simp
  with assms(3) obtain zs where "b = zs @ a"
    by (auto simp: append_eq_append_conv2)
  then show ?thesis
    by (auto simp: HasSuffix_iff)
qed

text \<open>No path ends in two of the four endpoint suffixes.\<close>

lemma generate_not_chat: "HasSuffix p ''/api/generate'' \<Longrightarrow> \<not> HasSuffix p ''/api/chat''"
proof
  assume "HasSuffix p ''/api/generate''" and "HasSuffix p ''/api/chat''"
  then have "HasSuffix ''/api/generate'' ''/api/chat''"
    by (rule HasSuffix_two) simp
  then show False
    by (simp add: HasSuffix_def)
qed

lemma embed_not_chat: "HasSuffix p ''/api/embed'' \<Longrightarrow> \<not> HasSuffix p ''/api/chat''"
proof
  assume "HasSuffix p ''/api/embed''" and "HasSuffix p ''/api/chat''"
  then have "HasSuffix ''/api/embed'' ''/api/chat''"
    by (rule HasSuffix_two) simp
  then show False
    by (simp add: HasSuffix_def)
qed

lemma generate_not_embed: "HasSuffix p ''/api/generate'' \<Longrightarrow> \<not> HasSuffix p ''/api/embed''"
proof
  assume "HasSuffix p ''/api/generate''" and "HasSuffix p ''/api/embed''"
  then have "HasSuffix ''/api/generate'' ''/api/embed''"
    by (rule HasSuffix_two) simp
  then show False
    by (simp add: HasSuffix_def)
qed

lemma create_not_chat: "HasSuffix p ''/api/create'' \<Longrightarrow> \<not> HasSuffix p ''/api/chat''"
proof
  assume "HasSuffix p ''/api/create''" and "HasSuffix p ''/api/chat''"
  then have "HasSuffix ''/api/create'' ''/api/chat''"
    by (rule HasSuffix_two) simp
  then show False
    by (simp add: HasSuffix_def)
qed

lemma generate_not_create: "HasSuffix p ''/api/generate'' \<Longrightarrow> \<not> HasSuffix p ''/api/create''"
proof
  assume "HasSuffix p ''/api/generate''" and "HasSuffix p ''/api/create''"
  then have "HasSuffix ''/api/generate'' ''/api/create''"
    by (rule HasSuffix_two) simp
  then show False
    by (simp add: HasSuffix_def)
qed

lemma create_not_embed: "HasSuffix p ''/api/create'' \<Longrightarrow> \<not> HasSuffix p ''/api/embed''"
proof
  assume "HasSuffix p ''/api/create''" and "HasSuffix p ''/api/embed''"
  then have "HasSuffix ''/api/create'' ''/api/embed''"
    by (rule HasSuffix_two) simp
  then show False
    by (simp add: HasSuffix_def)
qed

section \<open>Model extraction\<close>

text \<open>
  C4. For every path and body, model extraction goes by the suffix of the path. On a path
  that ends in \<^verbatim>\<open>/api/chat\<close>, \<^verbatim>\<open>/api/generate\<close>, \<^verbatim>\<open>/api/embed\<close> or \<^verbatim>\<open>/api/create\<close> the result is
  the \<open>model\<close> field of the body decoded as the request shape of that endpoint, and the
  empty string when the body does not decode as that shape. On every other path the result
  is the empty string. The function always returns a string: no failure reaches the caller.
\<close>

theorem getModelFromRequest_by_suffix:
  "(HasSuffix path ''/api/chat'' \<longrightarrow>
      getModelFromRequest js path b =
        (case Unmarshal_ChatRequest js b of
           Inr req \<Rightarrow> ChatRequest.Model req | Inl err \<Rightarrow> '''')) \<and>
   (HasSuffix path ''/api/generate'' \<longrightarrow>
      getModelFromRequest js path b =
        (case Unmarshal_GenerateRequest js b of
           Inr req \<Rightarrow> GenerateRequest.Model req | Inl err \<Rightarrow> '''')) \<and>
   (HasSuffix path ''/api/embed'' \<longrightarrow>
      getModelFromRequest js path b =
        (case Unmarshal_EmbedRequest js b of
           Inr req \<Rightarrow> EmbedRequest.Model req | Inl err \<Rightarrow> '''')) \<and>
   (HasSuffix path ''/api/create'' \<longrightarrow>
      getModelFromRequest js path b =
        (case Unmarshal_CreateRequest js b of
           Inr req \<Rightarrow> CreateRequest.Model req | Inl err \<Rightarrow> '''')) \<and>
   (\<not> HasSuffix path ''/api/chat'' \<and> \<not> HasSuffix path ''/api/generate'' \<and>
    \<not> HasSuffix path ''/api/embed'' \<and> \<not> HasSuffix path ''/api/create'' \<longrightarrow>
      getModelFromRequest js path b = '''')"
proof (intro conjI impI)
  assume "HasSuffix path ''/api/chat''"
  then show "getModelFromRequest js path b =
      (case Unmarshal_ChatRequest js b of Inr req \<Rightarrow> ChatRequest.Model req | Inl err \<Rightarrow> '''')"
    by (simp add: getModelFromRequest_def)
next
  assume g: "HasSuffix path ''/api/generate''"
  then have "\<not> HasSuffix path ''/api/chat''"
    by (rule generate_not_chat)
  with g show "getModelFromRequest js path b =
      (case Unmarshal_GenerateRequest js b of
         Inr req \<Rightarrow> GenerateRequest.Model req | Inl err \<Rightarrow> '''')"
    by (simp add: getModelFromRequest_def)
next
  assume e: "HasSuffix path ''/api/embed''"
  then have "\<not> HasSuffix path ''/api/chat''" and "\<not> HasSuffix path ''/api/generate''"
    using embed_not_chat generate_not_embed by blast+
  with e show "getModelFromRequest js path b =
      (case Unmarshal_EmbedRequest js b of
         Inr req \<Rightarrow> EmbedRequest.Model req | Inl err \<Rightarrow> '''')"
    by (simp add: getModelFromRequest_def)
next
  assume c: "HasSuffix path ''/api/create''"
  then have "\<not> HasSuffix path ''/api/chat''" and "\<not> HasSuffix path ''/api/generate''"
    and "\<not> HasSuffix path ''/api/embed''"
    using create_not_chat generate_not_create create_not_embed by blast+
  with c show "getModelFromRequest js path b =
      (case Unmarshal_CreateRequest js b of
         Inr req \<Rightarrow> CreateRequest.Model req | Inl err \<Rightarrow> '''')"
    by (simp add: getModelFromRequest_def)
next
  assume "\<not> HasSuffix path ''/api/chat'' \<and> \<not> HasSuffix path ''/api/generate'' \<and>
    \<not> HasSuffix path ''/api/embed'' \<and> \<not> HasSuffix path ''/api/create''"
  then show "getModelFromRequest js path b = ''''"
    by (simp add: getModelFromRequest_def)
qed

text \<open>
  The chat body of the example under \<^verbatim>\<open>/api/chat\<close> and under \<^verbatim>\<open>/v1/api/create\<close> yields
  \<^verbatim>\<open>llama2\<close>; the same body under an unrecognised path, and a body that is not JSON, yield
  the empty string.
\<close>

theorem getModelFromRequest_by_suffix_witness:
  "HasSuffix ''/api/chat'' ''/api/chat'' \<and>
   getModelFromRequest example_json ''/api/chat'' chat_body = ''llama2'' \<and>
   getModelFromRequest example_json ''/api/chat'' ''invalid json'' = '''' \<and>
   HasSuffix ''/v1/api/create'' ''/api/create'' \<and>
   getModelFromRequest example_json ''/v1/api/create'' chat_body = ''llama2'' \<and>
   \<not> HasSuffix ''/api/unknown'' ''/api/chat'' \<and>
   getModelFromRequest example_json ''/api/unknown'' chat_body = ''''"
  using getModelFromRequest_by_suffix [of "''/api/chat''" example_json chat_body]
    getModelFromRequest_by_suffix [of "''/api/chat''" example_json "''invalid json''"]
    getModelFromRequest_by_suffix [of "''/v1/api/create''" example_json chat_body]
    getModelFromRequest_by_suffix [of "''/api/unknown''" example_json chat_body]
  by (simp add: HasSuffix_def example_json_def chat_body_def)

section \<open>Token extraction\<close>

text \<open>
  C3. Token extraction goes by the suffix of the request path, as model extraction does. On
  a path that ends in \<^verbatim>\<open>/api/chat\<close> or \<^verbatim>\<open>/api/generate\<close> a response that decodes as the
  response shape of that endpoint yields its \<open>prompt_eval_count\<close> and \<open>eval_count\<close>; on a
  path that ends in \<^verbatim>\<open>/api/embed\<close> a response that decodes yields its \<open>prompt_eval_count\<close>
  and zero. A response that does not decode yields zero for both counts. A path that ends
  in none of these three suffixes yields zero for both counts whatever the response is; so
  does a path that ends in \<^verbatim>\<open>/api/create\<close>, the fourth suffix of model extraction, for which
  no count is derivable. The function always returns a pair: no failure reaches the caller.
\<close>

theorem getTokenCountsFromResponse_by_suffix:
  "(HasSuffix path ''/api/chat'' \<longrightarrow>
      getTokenCountsFromResponse js path b =
        (case Unmarshal_ChatResponse js b of
           Inr resp \<Rightarrow> (ChatResponse.PromptEvalCount resp, ChatResponse.EvalCount resp)
         | Inl err \<Rightarrow> (0, 0))) \<and>
   (HasSuffix path ''/api/generate'' \<longrightarrow>
      getTokenCountsFromResponse js path b =
        (case Unmarshal_GenerateResponse js b of
           Inr resp \<Rightarrow> (GenerateResponse.PromptEvalCount resp, GenerateResponse.EvalCount resp)
         | Inl err \<Rightarrow> (0, 0))) \<and>
   (HasSuffix path ''/api/embed'' \<longrightarrow>
      getTokenCountsFromResponse js path b =
        (case Unmarshal_EmbedResponse js b of
           Inr resp \<Rightarrow> (EmbedResponse.PromptEvalCount resp, 0)
         | Inl err \<Rightarrow> (0, 0))) \<and>
   (HasSuffix path ''/api/create'' \<longrightarrow> getTokenCountsFromResponse js path b = (0, 0)) \<and>
   (\<not> HasSuffix path ''/api/chat'' \<and> \<not> HasSuffix path ''/api/generate'' \<and>
    \<not> HasSuffix path ''/api/embed'' \<longrightarrow>
      getTokenCountsFromResponse js path b = (0, 0))"
proof (intro conjI impI)
  assume "HasSuffix path ''/api/chat''"
  then show "getTokenCountsFromResponse js path b =
      (case Unmarshal_ChatResponse js b of
         Inr resp \<Rightarrow> (ChatResponse.PromptEvalCount resp, ChatResponse.EvalCount resp)
       | Inl err \<Rightarrow> (0, 0))"
    by (simp add: getTokenCountsFromResponse_def)
next
  assume g: "HasSuffix path ''/api/generate''"
  then have "\<not> HasSuffix path ''/api/chat''"
    by (rule generate_not_chat)
  with g show "getTokenCountsFromResponse js path b =
      (case Unmarshal_GenerateResponse js b of
         Inr resp \<Rightarrow> (GenerateResponse.PromptEvalCount resp, GenerateResponse.EvalCount resp)
       | Inl err \<Rightarrow> (0, 0))"
    by (simp add: getTokenCountsFromResponse_def)
next
  assume e: "HasSuffix path ''/api/embed''"
  then have "\<not> HasSuffix path ''/api/chat''" and "\<not> HasSuffix path ''/api/generate''"
    using embed_not_chat generate_not_embed by blast+
  with e show "getTokenCountsFromResponse js path b =
      (case Unmarshal_EmbedResponse js b of
         Inr resp \<Rightarrow> (EmbedResponse.PromptEvalCount resp, 0)
       | Inl err \<Rightarrow> (0, 0))"
    by (simp add: getTokenCountsFromResponse_def)
next
  assume c: "HasSuffix path ''/api/create''"
  then have "\<not> HasSuffix path ''/api/chat''" and "\<not> HasSuffix path ''/api/generate''"
    and "\<not> HasSuffix path ''/api/embed''"
    using create_not_chat generate_not_create create_not_embed by blast+
  then show "getTokenCountsFromResponse js path b = (0, 0)"
    by (simp add: getTokenCountsFromResponse_def)
next
  assume "\<not> HasSuffix path ''/api/chat'' \<and> \<not> HasSuffix path ''/api/generate'' \<and>
    \<not> HasSuffix path ''/api/embed''"
  then show "getTokenCountsFromResponse js path b = (0, 0)"
    by (simp add: getTokenCountsFromResponse_def)
qed

text \<open>
  The response of the example yields 10 and 20 under \<^verbatim>\<open>/api/chat\<close>, 10 and 0 under
  \<^verbatim>\<open>/api/embed\<close>, and zeros under \<^verbatim>\<open>/api/create\<close> and under an unknown path; a response that
  is not JSON yields zeros.
\<close>

theorem getTokenCountsFromResponse_by_suffix_witness:
  "HasSuffix ''/api/chat'' ''/api/chat'' \<and>
   getTokenCountsFromResponse example_json ''/api/chat'' chat_response_body = (10, 20) \<and>
   getTokenCountsFromResponse example_json ''/api/chat'' ''invalid json'' = (0, 0) \<and>
   HasSuffix ''/api/embed'' ''/api/embed'' \<and>
   getTokenCountsFromResponse example_json ''/api/embed'' chat_response_body = (10, 0) \<and>
   HasSuffix ''/api/create'' ''/api/create'' \<and>
   getTokenCountsFromResponse example_json ''/api/create'' chat_response_body = (0, 0) \<and>
   \<not> HasSuffix ''/api/unknown'' ''/api/chat'' \<and>
   getTokenCountsFromResponse example_json ''/api/unknown'' chat_response_body = (0, 0)"
  using getTokenCountsFromResponse_by_suffix [of "''/api/chat''" example_json chat_response_body]
    getTokenCountsFromResponse_by_suffix [of "''/api/chat''" example_json "''invalid json''"]
    getTokenCountsFromResponse_by_suffix [of "''/api/embed''" example_json chat_response_body]
    getTokenCountsFromResponse_by_suffix [of "''/api/create''" example_json chat_response_body]
    getTokenCountsFromResponse_by_suffix [of "''/api/unknown''" example_json chat_response_body]
  by (simp add: HasSuffix_def example_json_def chat_response_body_def)

section \<open>URL rewriting\<close>

lemma singleJoiningSlash_joined: "singleJoiningSlash a b = spec_joined_path a b"
proof -
  consider
    (both) a' b' where "a = a' @ ''/''" and "b = CHR ''/'' # b'"
  | (left) a' where "a = a' @ ''/''" and "\<not> HasPrefix b ''/''"
  | (right) b' where "\<not> HasSuffix a ''/''" and "b = CHR ''/'' # b'"
  | (none) "\<not> HasSuffix a ''/''" and "\<not> HasPrefix b ''/''"
  proof (cases "HasSuffix a ''/''")
    case True
    then obtain a' where a: "a = a' @ ''/''"
      by (auto simp: HasSuffix_iff)
    show ?thesis
    proof (cases "HasPrefix b ''/''")
      case True
      then have "b = CHR ''/'' # tl b"
        by (cases b) (simp_all add: HasPrefix_def)
      with a both show ?thesis
        by blast
    next
      case False
      with a left show ?thesis
        by blast
    qed
  next
    case False
    show ?thesis
    proof (cases "HasPrefix b ''/''")
      case True
      then have "b = CHR ''/'' # tl b"
        by (cases b) (simp_all add: HasPrefix_def)
      with False right show ?thesis
        by blast
    next
      case no: False
      with False none show ?thesis
        by blast
    qed
  qed
  then show ?thesis
  proof cases
    case both
    then show ?thesis
      by (auto simp: singleJoiningSlash_def spec_joined_path_def without_trailing_slash_def
          without_leading_slash_def HasSuffix_slash HasPrefix_slash Let_def)
  next
    case left
    then show ?thesis
      by (auto simp: singleJoiningSlash_def spec_joined_path_def without_trailing_slash_def
          without_leading_slash_def HasSuffix_slash HasPrefix_slash Let_def)
  next
    case right
    then show ?thesis
      by (auto simp: singleJoiningSlash_def spec_joined_path_def without_trailing_slash_def
          without_leading_slash_def HasSuffix_slash HasPrefix_slash Let_def)
  next
    case none
    then show ?thesis
      by (auto simp: singleJoiningSlash_def spec_joined_path_def without_trailing_slash_def
          without_leading_slash_def HasSuffix_slash HasPrefix_slash Let_def)
  qed
qed

text \<open>
  C5. For every backend base URL and inbound URL, the director keeps everything of the
  inbound URL but four fields: scheme and host are the backend's; the path is the base path
  and the inbound path with one slash between them, whether or not the base path ends in a
  slash and whether or not the inbound path starts with one; the query is the base query
  and the inbound query with an ampersand between them when both are non-empty, and
  otherwise whichever of the two is non-empty.
\<close>

theorem Director_rewrites_path_and_query:
  "Director targetURL reqURL =
     reqURL\<lparr>Scheme := Scheme targetURL,
            Host := Host targetURL,
            Path := spec_joined_path (Path targetURL) (Path reqURL),
            RawQuery := spec_merged_query (RawQuery targetURL) (RawQuery reqURL)\<rparr>"
proof -
  have path: "singleJoiningSlash (Path targetURL) (Path reqURL)
      = spec_joined_path (Path targetURL) (Path reqURL)"
    by (rule singleJoiningSlash_joined)
  have query: "(if RawQuery targetURL = '''' \<or> RawQuery reqURL = ''''
       then RawQuery targetURL @ RawQuery reqURL
       else RawQuery targetURL @ ''&'' @ RawQuery reqURL)
      = spec_merged_query (RawQuery targetURL) (RawQuery reqURL)"
    by (simp add: spec_merged_query_def)
  show ?thesis
    unfolding Director_def path query ..
qed

text \<open>
  Base \<^verbatim>\<open>http://h/x/?a=1\<close> and inbound \<^verbatim>\<open>/y?b=2\<close> give \<^verbatim>\<open>http://h/x/y?a=1&b=2\<close>; base
  \<^verbatim>\<open>http://h/x\<close> and inbound path \<^verbatim>\<open>y\<close> give \<^verbatim>\<open>http://h/x/y\<close>.
\<close>

theorem Director_rewrites_path_and_query_witness:
  "Director \<lparr>Scheme = ''http'', Host = ''h'', Path = ''/x/'', RawQuery = ''a=1''\<rparr>
            \<lparr>Scheme = '''', Host = '''', Path = ''/y'', RawQuery = ''b=2''\<rparr>
     = \<lparr>Scheme = ''http'', Host = ''h'', Path = ''/x/y'', RawQuery = ''a=1&b=2''\<rparr> \<and>
   Director \<lparr>Scheme = ''http'', Host = ''h'', Path = ''/x'', RawQuery = ''''\<rparr>
            \<lparr>Scheme = '''', Host = '''', Path = ''y'', RawQuery = ''''\<rparr>
     = \<lparr>Scheme = ''http'', Host = ''h'', Path = ''/x/y'', RawQuery = ''''\<rparr>"
  using Director_rewrites_path_and_query
      [of "\<lparr>Scheme = ''http'', Host = ''h'', Path = ''/x/'', RawQuery = ''a=1''\<rparr>"
          "\<lparr>Scheme = '''', Host = '''', Path = ''/y'', RawQuery = ''b=2''\<rparr>"]
    Director_rewrites_path_and_query
      [of "\<lparr>Scheme = ''http'', Host = ''h'', Path = ''/x'', RawQuery = ''''\<rparr>"
          "\<lparr>Scheme = '''', Host = '''', Path = ''y'', RawQuery = ''''\<rparr>"]
  by (simp add: spec_joined_path_def without_trailing_slash_def without_leading_slash_def
      spec_merged_query_def)

section \<open>The capturing writer is transparent\<close>

lemma written_append: "written (cs @ ds) = written cs @ written ds"
  by (induction cs rule: written.induct) simp_all

lemma last_status_append: "last_status c (cs @ ds) = last_status (last_status c cs) ds"
  by (induction c cs rule: last_status.induct) simp_all

text \<open>A script run against the bare writer only adds calls.\<close>

lemma run_bare_extends:
  "\<exists>cs. run sc ResponseWriter_WriteHeader (ResponseWriter_Write result) u = u @ cs"
proof (induction sc arbitrary: u)
  case Return
  show ?case by simp
next
  case Abort
  show ?case by simp
next
  case Block
  show ?case by simp
next
  case (CallWriteHeader code k)
  have "ResponseWriter_WriteHeader u code = u @ [WriteHeader code]"
    by (simp add: ResponseWriter_WriteHeader_def)
  with CallWriteHeader [of "u @ [WriteHeader code]"] show ?case
    by auto
next
  case (CallWrite b k)
  have "ResponseWriter_Write result u b = (result u b, u @ [Write b])"
    by (simp add: ResponseWriter_Write_def)
  with CallWrite [of "k (result u b)" "u @ [Write b]"] show ?case
    by auto
qed

text \<open>
  A script run against the capturing writer leaves the embedded writer as the same script
  run against it directly would, and captures exactly what was handed to it.
\<close>

lemma run_capturing:
  "\<exists>cs. ResponseWriter (run sc responseWriter_WriteHeader (responseWriter_Write result) rw)
          = ResponseWriter rw @ cs \<and>
        run sc ResponseWriter_WriteHeader (ResponseWriter_Write result) (ResponseWriter rw)
          = ResponseWriter rw @ cs \<and>
        body (run sc responseWriter_WriteHeader (responseWriter_Write result) rw)
          = body rw @ written cs \<and>
        statusCode (run sc responseWriter_WriteHeader (responseWriter_Write result) rw)
          = last_status (statusCode rw) cs"
proof (induction sc arbitrary: rw)
  case Return
  show ?case by simp
next
  case Abort
  show ?case by simp
next
  case Block
  show ?case by simp
next
  case (CallWriteHeader code k)
  let ?rw = "responseWriter_WriteHeader rw code"
  from CallWriteHeader [of ?rw] obtain cs where
    cs: "ResponseWriter (run k responseWriter_WriteHeader (responseWriter_Write result) ?rw)
           = ResponseWriter ?rw @ cs"
        "run k ResponseWriter_WriteHeader (ResponseWriter_Write result) (ResponseWriter ?rw)
           = ResponseWriter ?rw @ cs"
        "body (run k responseWriter_WriteHeader (responseWriter_Write result) ?rw)
           = body ?rw @ written cs"
        "statusCode (run k responseWriter_WriteHeader (responseWriter_Write result) ?rw)
           = last_status (statusCode ?rw) cs"
    by blast
  have rw: "ResponseWriter ?rw = ResponseWriter rw @ [WriteHeader code]"
    "body ?rw = body rw" "statusCode ?rw = code"
    by (simp_all add: responseWriter_WriteHeader_def ResponseWriter_WriteHeader_def)
  have bare: "ResponseWriter_WriteHeader (ResponseWriter rw) code
      = ResponseWriter rw @ [WriteHeader code]"
    by (simp add: ResponseWriter_WriteHeader_def)
  show ?case
    using cs rw bare
    by (intro exI [of _ "WriteHeader code # cs"]) simp
next
  case (CallWrite b k)
  let ?res = "result (ResponseWriter rw) b"
  let ?rw = "rw\<lparr>body := body rw @ b, ResponseWriter := ResponseWriter rw @ [Write b]\<rparr>"
  have step: "responseWriter_Write result rw b = (?res, ?rw)"
    by (simp add: responseWriter_Write_def ResponseWriter_Write_def)
  from CallWrite [of "k ?res" ?rw] obtain cs where
    cs: "ResponseWriter (run (k ?res) responseWriter_WriteHeader (responseWriter_Write result) ?rw)
           = ResponseWriter ?rw @ cs"
        "run (k ?res) ResponseWriter_WriteHeader (ResponseWriter_Write result) (ResponseWriter ?rw)
           = ResponseWriter ?rw @ cs"
        "body (run (k ?res) responseWriter_WriteHeader (responseWriter_Write result) ?rw)
           = body ?rw @ written cs"
        "statusCode (run (k ?res) responseWriter_WriteHeader (responseWriter_Write result) ?rw)
           = last_status (statusCode ?rw) cs"
    by blast
  have bare: "ResponseWriter_Write result (ResponseWriter rw) b
      = (?res, ResponseWriter rw @ [Write b])"
    by (simp add: ResponseWriter_Write_def)
  show ?case
    using cs bare
    by (intro exI [of _ "Write b # cs"]) (simp add: step)
qed

text \<open>A script ends against the capturing writer as it ends against the embedded writer.\<close>

lemma ends_capturing:
  "ends sc responseWriter_WriteHeader (responseWriter_Write result) rw
     = ends sc ResponseWriter_WriteHeader (ResponseWriter_Write result) (ResponseWriter rw)"
proof (induction sc arbitrary: rw)
  case Return
  show ?case by simp
next
  case Abort
  show ?case by simp
next
  case Block
  show ?case by simp
next
  case (CallWriteHeader code k)
  have "ResponseWriter (responseWriter_WriteHeader rw code)
      = ResponseWriter_WriteHeader (ResponseWriter rw) code"
    by (simp add: responseWriter_WriteHeader_def)
  with CallWriteHeader [of "responseWriter_WriteHeader rw code"] show ?case
    by simp
next
  case (CallWrite b k)
  let ?res = "result (ResponseWriter rw) b"
  let ?rw = "rw\<lparr>body := body rw @ b, ResponseWriter := ResponseWriter rw @ [Write b]\<rparr>"
  have step: "responseWriter_Write result rw b = (?res, ?rw)"
    by (simp add: responseWriter_Write_def ResponseWriter_Write_def)
  have bare: "ResponseWriter_Write result (ResponseWriter rw) b
      = (?res, ResponseWriter rw @ [Write b])"
    by (simp add: ResponseWriter_Write_def)
  from CallWrite [of "k ?res" ?rw] show ?case
    by (simp add: step bare)
qed

section \<open>Events of the building blocks\<close>

lemma emit_simps [simp]:
  "trace (emit e s) = trace s @ [e]"
  "reverseProxy (emit e s) = reverseProxy s"
  "clock (emit e s) = clock s"
  by (simp_all add: emit_def)

lemma Log_simps [simp]:
  "trace (Log w level message fs s) =
     trace s @ [Println \<lparr>Timestamp = UnixNano w (clock s), Level = level,
                         Message = message, Fields = fs\<rparr>]"
  "reverseProxy (Log w level message fs s) = reverseProxy s"
  "clock (Log w level message fs s) = Suc (clock s)"
  by (simp_all add: Log_def time_Now_def)

lemma events_append: "trace s' = trace s @ es \<Longrightarrow> events s s' = es"
  by (simp add: events_def)

lemma steps_Nil [simp]:
  "validated [] = []" "sent [] = []" "proxied [] = []" "dispatched [] = []"
  by (simp_all add: validated_def sent_def proxied_def dispatched_def)

lemma steps_append [simp]:
  "validated (es @ fs) = validated es @ validated fs"
  "sent (es @ fs) = sent es @ sent fs"
  "proxied (es @ fs) = proxied es @ proxied fs"
  "dispatched (es @ fs) = dispatched es @ dispatched fs"
  by (simp_all add: validated_def sent_def proxied_def dispatched_def)

lemma validated_Cons [simp]:
  "validated (e # es) = (case e of Call_validateRequest d \<Rightarrow> [d] | _ \<Rightarrow> []) @ validated es"
  by (simp add: validated_def)

lemma sent_Cons [simp]:
  "sent (e # es) = (case e of Do c req \<Rightarrow> [(c, req)] | _ \<Rightarrow> []) @ sent es"
  by (simp add: sent_def)

lemma proxied_Cons [simp]:
  "proxied (e # es) = (case e of ServeHTTP req \<Rightarrow> [req] | _ \<Rightarrow> []) @ proxied es"
  by (simp add: proxied_def)

lemma dispatched_Cons [simp]:
  "dispatched (e # es) = (case e of Go_sendMetrics m \<Rightarrow> [m] | _ \<Rightarrow> []) @ dispatched es"
  by (simp add: dispatched_def)

text \<open>Building the client logs at most one line and does nothing else.\<close>

lemma getSecureHTTPClient_run:
  "\<exists>es. trace (snd (getSecureHTTPClient cfg w s)) = trace s @ es \<and>
        reverseProxy (snd (getSecureHTTPClient cfg w s)) = reverseProxy s \<and>
        validated es = [] \<and> sent es = [] \<and> proxied es = [] \<and> dispatched es = []"
  by (auto simp: getSecureHTTPClient_def Let_def split: sum.splits)

lemma security_headers_run [simp]:
  "trace (snd (security_headers cfg w req s)) = trace s"
  "reverseProxy (snd (security_headers cfg w req s)) = reverseProxy s"
  "Request.Body (fst (security_headers cfg w req s)) = Request.Body req"
  "Request.URL (fst (security_headers cfg w req s)) = Request.URL req"
  "Request.Method (fst (security_headers cfg w req s)) = Request.Method req"
  by (simp_all add: security_headers_def Let_def time_Now_def)

text \<open>
  One call of \<^verbatim>\<open>validateRequest\<close>: it sends at most one request, whose body is the marshalled
  details; it starts no proxy call and no metrics goroutine; and it returns true exactly
  when the decision rule holds of the request it sent.
\<close>

lemma validateRequest_run:
  "\<exists>es. trace (snd (validateRequest cfg w d s)) = trace s @ es \<and>
        reverseProxy (snd (validateRequest cfg w d s)) = reverseProxy s \<and>
        validated es = [] \<and> proxied es = [] \<and> dispatched es = [] \<and>
        length (sent es) \<le> 1 \<and>
        (\<forall>call \<in> set (sent es).
           Marshal_RequestDetails w d = Inr (fst (Request.Body (snd call))) \<and>
           Request.Method (snd call) = ''POST'' \<and>
           url_Parse w (externalValidationURL cfg) = Inr (Request.URL (snd call))) \<and>
        fst (validateRequest cfg w d s) = approved w es"
proof (cases "Marshal_RequestDetails w d")
  case (Inl err)
  then show ?thesis
    by (simp add: validateRequest_def Error_def approved_def)
next
  case (Inr jsonData)
  note marshal = this
  show ?thesis
  proof (cases "http_NewRequest w ''POST'' (externalValidationURL cfg) jsonData")
    case (Inl err)
    with marshal show ?thesis
      by (simp add: validateRequest_def Error_def approved_def)
  next
    case (Inr req0)
    note newreq = this
    define req1 where "req1 = req0\<lparr>Request.Header :=
        Header_Set (CanonicalMIMEHeaderKey w) (Request.Header req0)
          ''Content-Type'' ''application/json''\<rparr>"
    define req where "req = fst (security_headers cfg w req1 s)"
    define s1 where "s1 = snd (security_headers cfg w req1 s)"
    define client where "client = fst (getSecureHTTPClient cfg w s1)"
    define s2 where "s2 = snd (getSecureHTTPClient cfg w s1)"
    define s3 where "s3 = emit (Do client req) s2"
    from getSecureHTTPClient_run [of cfg w s1] obtain ps where
      ps: "trace s2 = trace s @ ps" "reverseProxy s2 = reverseProxy s"
        "validated ps = []" "sent ps = []" "proxied ps = []" "dispatched ps = []"
      unfolding s2_def s1_def by auto
    have req: "Request.Body req = (jsonData, None)" "Request.Method req = ''POST''"
      "url_Parse w (externalValidationURL cfg) = Inr (Request.URL req)"
      using newreq unfolding req_def req1_def
      by (auto simp: http_NewRequest_def split: sum.splits)
    have unfold: "validateRequest cfg w d s =
        (case client_Do w client req of
           Inl err \<Rightarrow>
             (False, Error w ''Error calling validation server'' (Some err)
                [''api_key'' \<mapsto> StringValue (RequestDetails.APIKey d),
                 ''endpoint'' \<mapsto> StringValue (RequestDetails.Endpoint d)] s3)
         | Inr resp \<Rightarrow>
             if StatusCode resp \<noteq> 200 then
               (False, Warning w ''Validation server returned non-OK status''
                  [''api_key'' \<mapsto> StringValue (RequestDetails.APIKey d),
                   ''endpoint'' \<mapsto> StringValue (RequestDetails.Endpoint d),
                   ''status_code'' \<mapsto> IntValue (StatusCode resp)] s3)
             else
               (case Decode_ValidationResponse w (Response.Body resp) of
                  Inl err \<Rightarrow>
                    (False, Error w ''Error decoding validation response'' (Some err)
                       [''api_key'' \<mapsto> StringValue (RequestDetails.APIKey d),
                        ''endpoint'' \<mapsto> StringValue (RequestDetails.Endpoint d)] s3)
                | Inr v \<Rightarrow> (Valid v \<and> \<not> RateLimited v, s3)))"
      unfolding s3_def s2_def client_def s1_def req_def req1_def
      using marshal newreq
      by (simp add: validateRequest_def Let_def split_beta Client_Do_def)
    have s3: "trace s3 = trace s @ ps @ [Do client req]" "reverseProxy s3 = reverseProxy s"
      using ps by (simp_all add: s3_def)
    show ?thesis
    proof (cases "client_Do w client req")
      case (Inl err)
      with s3 ps req marshal show ?thesis
        by (intro exI [of _ "ps @ [Do client req, Println
              \<lparr>Timestamp = UnixNano w (clock s3), Level = ERROR,
               Message = ''Error calling validation server'',
               Fields = [''api_key'' \<mapsto> StringValue (RequestDetails.APIKey d),
                 ''endpoint'' \<mapsto> StringValue (RequestDetails.Endpoint d),
                 ''error'' \<mapsto> StringValue err]\<rparr>]"])
           (simp add: unfold Error_def approved_def verdict_ok_def)
    next
      case (Inr resp)
      note resp = this
      show ?thesis
      proof (cases "StatusCode resp = 200")
        case False
        with resp s3 ps req marshal show ?thesis
          by (intro exI [of _ "ps @ [Do client req, Println
                \<lparr>Timestamp = UnixNano w (clock s3), Level = WARNING,
                 Message = ''Validation server returned non-OK status'',
                 Fields = [''api_key'' \<mapsto> StringValue (RequestDetails.APIKey d),
                   ''endpoint'' \<mapsto> StringValue (RequestDetails.Endpoint d),
                   ''status_code'' \<mapsto> IntValue (StatusCode resp)]\<rparr>]"])
             (simp add: unfold Warning_def approved_def verdict_ok_def)
      next
        case True
        note ok = this
        show ?thesis
        proof (cases "Decode_ValidationResponse w (Response.Body resp)")
          case (Inl err)
          with ok resp s3 ps req marshal show ?thesis
            by (intro exI [of _ "ps @ [Do client req, Println
                  \<lparr>Timestamp = UnixNano w (clock s3), Level = ERROR,
                   Message = ''Error decoding validation response'',
                   Fields = [''api_key'' \<mapsto> StringValue (RequestDetails.APIKey d),
                     ''endpoint'' \<mapsto> StringValue (RequestDetails.Endpoint d),
                     ''error'' \<mapsto> StringValue err]\<rparr>]"])
               (simp add: unfold Error_def approved_def verdict_ok_def)
        next
          case (Inr v)
          with ok resp s3 ps req marshal show ?thesis
            by (intro exI [of _ "ps @ [Do client req]"])
               (simp add: unfold approved_def verdict_ok_def)
        qed
      qed
    qed
  qed
qed

section \<open>The runs of the handler\<close>

lemma getReverseProxy_run:
  "(proxy_available cfg w s \<longrightarrow>
      (\<exists>proxy. getReverseProxy cfg w s = (Some proxy, s\<lparr>reverseProxy := Some proxy\<rparr>) \<and>
         (case reverseProxy s of
            Some p \<Rightarrow> proxy = p
          | None \<Rightarrow> (\<exists>u. url_Parse w (ollamaURL cfg) = Inr u \<and> proxy = Director u)))) \<and>
   (\<not> proxy_available cfg w s \<longrightarrow>
      (\<exists>msg. getReverseProxy cfg w s = (None, emit (Fatalf msg) s)))"
  by (auto simp: getReverseProxy_def proxy_available_def split: option.splits sum.splits)

text \<open>
  Every run of the handler is of one of six kinds: the key is missing; the header copy
  panics; the body cannot be read; validation is called and does not approve; validation
  approves and the proxy cannot be built; validation approves and the request is proxied.
  \<open>es\<close> are the events of the run.
\<close>

lemma proxyHandler_run:
  fixes cfg :: config and w :: "'w world_scheme" and rw :: ResponseWriter
    and r :: Request and s :: state
  defines "h \<equiv> proxyHandler cfg w rw r s"
  defines "es \<equiv> events s (final h)"
  defines "key \<equiv> Header_Get (CanonicalMIMEHeaderKey w) (Request.Header r) (apiKeyHeaderName cfg)"
  defines "path \<equiv> Path (Request.URL r)"
  obtains
    (missing_key)
      "key = ''''" and "outcome h = Returned"
      and "client h = rw @ [WriteHeader 401, Write (''Unauthorized: Missing API key'' @ [CHR 0x0A])]"
      and "validated es = []" and "sent es = []" and "proxied es = []" and "dispatched es = []"
      and "length es = 1"
  | (panic)
      "key \<noteq> ''''" and "copyHeaders (Request.Header r) Map.empty = None"
      and "outcome h = Panicked" and "client h = rw" and "es = []"
  | (unreadable) err where
      "key \<noteq> ''''" and "copyHeaders (Request.Header r) Map.empty \<noteq> None"
      and "snd (Request.Body r) = Some err" and "outcome h = Returned"
      and "client h = rw @ [WriteHeader 400, Write (''Error reading request body'' @ [CHR 0x0A])]"
      and "validated es = []" and "sent es = []" and "proxied es = []" and "dispatched es = []"
  | (denied) d where
      "key \<noteq> ''''" and "copyHeaders (Request.Header r) Map.empty = Some (RequestDetails.Headers d)"
      and "snd (Request.Body r) = None"
      and "validated es = [d]"
      and "RequestDetails.APIKey d = key"
      and "RequestDetails.Model d = getModelFromRequest w path (fst (Request.Body r))"
      and "RequestDetails.Endpoint d = path"
      and "RequestDetails.InputTokenLength d = 0"
      and "length (sent es) \<le> 1"
      and "\<forall>call \<in> set (sent es).
             Marshal_RequestDetails w d = Inr (fst (Request.Body (snd call))) \<and>
             Request.Method (snd call) = ''POST'' \<and>
             url_Parse w (externalValidationURL cfg) = Inr (Request.URL (snd call))"
      and "\<not> approved w es" and "outcome h = Returned"
      and "client h = rw @ [WriteHeader 401, Write (''Unauthorized: Invalid request'' @ [CHR 0x0A])]"
      and "proxied es = []" and "dispatched es = []"
  | (fatal) d where
      "key \<noteq> ''''" and "copyHeaders (Request.Header r) Map.empty = Some (RequestDetails.Headers d)"
      and "snd (Request.Body r) = None"
      and "validated es = [d]"
      and "RequestDetails.APIKey d = key"
      and "RequestDetails.Model d = getModelFromRequest w path (fst (Request.Body r))"
      and "RequestDetails.Endpoint d = path"
      and "RequestDetails.InputTokenLength d = 0"
      and "length (sent es) \<le> 1"
      and "\<forall>call \<in> set (sent es).
             Marshal_RequestDetails w d = Inr (fst (Request.Body (snd call))) \<and>
             Request.Method (snd call) = ''POST'' \<and>
             url_Parse w (externalValidationURL cfg) = Inr (Request.URL (snd call))"
      and "approved w es" and "\<not> proxy_available cfg w s"
      and "outcome h = Exited" and "client h = rw"
      and "proxied es = []" and "dispatched es = []"
  | (served) d proxy cs duration where
      "key \<noteq> ''''" and "copyHeaders (Request.Header r) Map.empty = Some (RequestDetails.Headers d)"
      and "snd (Request.Body r) = None"
      and "validated es = [d]"
      and "RequestDetails.APIKey d = key"
      and "RequestDetails.Model d = getModelFromRequest w path (fst (Request.Body r))"
      and "RequestDetails.Endpoint d = path"
      and "RequestDetails.InputTokenLength d = 0"
      and "length (sent es) \<le> 1"
      and "\<forall>call \<in> set (sent es).
             Marshal_RequestDetails w d = Inr (fst (Request.Body (snd call))) \<and>
             Request.Method (snd call) = ''POST'' \<and>
             url_Parse w (externalValidationURL cfg) = Inr (Request.URL (snd call))"
      and "approved w es" and "proxy_available cfg w s"
      and "case reverseProxy s of
             Some p \<Rightarrow> proxy = p
           | None \<Rightarrow> (\<exists>u. url_Parse w (ollamaURL cfg) = Inr u \<and> proxy = Director u)"
      and "ends (proxy_script w (r\<lparr>Request.Body := (fst (Request.Body r), None),
                                    Request.URL := proxy (Request.URL r)\<rparr>))
             ResponseWriter_WriteHeader (ResponseWriter_Write (Write_result w)) rw = Returns"
      and "outcome h = Returned"
      and "proxied es = [r\<lparr>Request.Body := (fst (Request.Body r), None),
                           Request.URL := proxy (Request.URL r)\<rparr>]"
      and "run (proxy_script w (r\<lparr>Request.Body := (fst (Request.Body r), None),
                                   Request.URL := proxy (Request.URL r)\<rparr>))
             ResponseWriter_WriteHeader (ResponseWriter_Write (Write_result w)) rw = rw @ cs"
      and "client h = rw @ cs"
      and "dispatched es =
             [\<lparr>MetricsData.APIKey = key,
               MetricsData.Model = getModelFromRequest w path (fst (Request.Body r)),
               MetricsData.InputTokenLength =
                 fst (getTokenCountsFromResponse w path (written cs)),
               MetricsData.OutputTokenLength =
                 snd (getTokenCountsFromResponse w path (written cs)),
               MetricsData.RequestDurationMs = duration,
               MetricsData.Endpoint = path\<rparr>]"
  | (stopped) d proxy cs where
      "key \<noteq> ''''" and "copyHeaders (Request.Header r) Map.empty = Some (RequestDetails.Headers d)"
      and "snd (Request.Body r) = None"
      and "validated es = [d]"
      and "RequestDetails.APIKey d = key"
      and "RequestDetails.Model d = getModelFromRequest w path (fst (Request.Body r))"
      and "RequestDetails.Endpoint d = path"
      and "RequestDetails.InputTokenLength d = 0"
      and "length (sent es) \<le> 1"
      and "\<forall>call \<in> set (sent es).
             Marshal_RequestDetails w d = Inr (fst (Request.Body (snd call))) \<and>
             Request.Method (snd call) = ''POST'' \<and>
             url_Parse w (externalValidationURL cfg) = Inr (Request.URL (snd call))"
      and "approved w es" and "proxy_available cfg w s"
      and "case reverseProxy s of
             Some p \<Rightarrow> proxy = p
           | None \<Rightarrow> (\<exists>u. url_Parse w (ollamaURL cfg) = Inr u \<and> proxy = Director u)"
      and "ends (proxy_script w (r\<lparr>Request.Body := (fst (Request.Body r), None),
                                    Request.URL := proxy (Request.URL r)\<rparr>))
             ResponseWriter_WriteHeader (ResponseWriter_Write (Write_result w)) rw \<noteq> Returns"
      and "outcome h =
             (case ends (proxy_script w (r\<lparr>Request.Body := (fst (Request.Body r), None),
                                            Request.URL := proxy (Request.URL r)\<rparr>))
                     ResponseWriter_WriteHeader (ResponseWriter_Write (Write_result w)) rw of
                Aborts \<Rightarrow> Panicked | _ \<Rightarrow> Blocked)"
      and "proxied es = [r\<lparr>Request.Body := (fst (Request.Body r), None),
                           Request.URL := proxy (Request.URL r)\<rparr>]"
      and "run (proxy_script w (r\<lparr>Request.Body := (fst (Request.Body r), None),
                                   Request.URL := proxy (Request.URL r)\<rparr>))
             ResponseWriter_WriteHeader (ResponseWriter_Write (Write_result w)) rw = rw @ cs"
      and "client h = rw @ cs"
      and "dispatched es = []"
proof (cases "key = ''''")
  case True
  then have "outcome h = Returned"
    and "client h = rw @ [WriteHeader 401, Write (''Unauthorized: Missing API key'' @ [CHR 0x0A])]"
    and "\<exists>e. trace (final h) = trace s @ [Println e]"
    unfolding h_def key_def
    by (simp_all add: proxyHandler_def Let_def time_Now_def Warning_def http_Error_def
        ResponseWriter_Write_def ResponseWriter_WriteHeader_def)
  with True missing_key show ?thesis
    unfolding es_def by (auto dest!: events_append)
next
  case False
  note key = this
  define s1 where "s1 = s\<lparr>clock := Suc (clock s)\<rparr>"
  show ?thesis
  proof (cases "copyHeaders (Request.Header r) Map.empty")
    case None
    with key have "outcome h = Panicked" and "client h = rw" and "trace (final h) = trace s"
      unfolding h_def key_def
      by (simp_all add: proxyHandler_def Let_def time_Now_def)
    with key None panic show ?thesis
      unfolding es_def by (simp add: events_def)
  next
    case (Some hs)
    note copy = this
    obtain b e where body: "Request.Body r = (b, e)"
      by (cases "Request.Body r")
    show ?thesis
    proof (cases e)
      case (Some err)
      with key copy body have "outcome h = Returned"
        and "client h = rw @ [WriteHeader 400, Write (''Error reading request body'' @ [CHR 0x0A])]"
        and "\<exists>e. trace (final h) = trace s @ [Println e]"
        unfolding h_def key_def
        by (simp_all add: proxyHandler_def Let_def time_Now_def Error_def http_Error_def
            io_ReadAll_def ResponseWriter_Write_def ResponseWriter_WriteHeader_def)
      with key copy body Some unreadable [of err] show ?thesis
        unfolding es_def by (auto dest!: events_append)
    next
      case None
      note readable = this
      define d where "d =
        \<lparr>RequestDetails.APIKey = key,
         RequestDetails.IPAddress = Request.RemoteAddr r,
         RequestDetails.UserAgent =
           Header_Get (CanonicalMIMEHeaderKey w) (Request.Header r) ''User-Agent'',
         RequestDetails.Headers = hs,
         RequestDetails.Model = getModelFromRequest w path b,
         RequestDetails.InputTokenLength = 0,
         RequestDetails.Endpoint = path\<rparr>"
      define ok where "ok = fst (validateRequest cfg w d (emit (Call_validateRequest d) s1))"
      define s2 where "s2 = snd (validateRequest cfg w d (emit (Call_validateRequest d) s1))"
      have d: "RequestDetails.Headers d = hs" "RequestDetails.APIKey d = key"
        "RequestDetails.Model d = getModelFromRequest w path (fst (Request.Body r))"
        "RequestDetails.Endpoint d = path" "RequestDetails.InputTokenLength d = 0"
        by (simp_all add: d_def body)
      from validateRequest_run [of cfg w d "emit (Call_validateRequest d) s1"]
      obtain vs where
        vs: "trace s2 = trace s @ Call_validateRequest d # vs"
          "reverseProxy s2 = reverseProxy s"
          "validated vs = []" "proxied vs = []" "dispatched vs = []"
          "length (sent vs) \<le> 1"
          "\<forall>call \<in> set (sent vs).
             Marshal_RequestDetails w d = Inr (fst (Request.Body (snd call))) \<and>
             Request.Method (snd call) = ''POST'' \<and>
             url_Parse w (externalValidationURL cfg) = Inr (Request.URL (snd call))"
          "ok = approved w vs"
        unfolding s2_def ok_def s1_def by auto
      have avail: "proxy_available cfg w s2 = proxy_available cfg w s"
        by (simp add: proxy_available_def vs(2))
      show ?thesis
      proof (cases ok)
        case False
        have "outcome h = Returned"
          and "client h = rw @ [WriteHeader 401, Write (''Unauthorized: Invalid request'' @ [CHR 0x0A])]"
          and "\<exists>e. trace (final h) = trace s2 @ [Println e]"
          using key copy body readable False
          unfolding h_def ok_def s2_def d_def s1_def key_def path_def
          by (simp_all add: proxyHandler_def Let_def time_Now_def split_beta Warning_def
              http_Error_def io_ReadAll_def ResponseWriter_Write_def
              ResponseWriter_WriteHeader_def)
        then obtain e where "outcome h = Returned"
          and "client h = rw @ [WriteHeader 401, Write (''Unauthorized: Invalid request'' @ [CHR 0x0A])]"
          and "es = Call_validateRequest d # vs @ [Println e]"
          unfolding es_def using vs(1) by (auto simp: events_def)
        with key copy body readable False d vs denied [of d] show ?thesis
          by (simp add: approved_def)
      next
        case True
        note approved = this
        show ?thesis
        proof (cases "proxy_available cfg w s")
          case False
          with getReverseProxy_run [of cfg w s2] avail obtain msg where
            "getReverseProxy cfg w s2 = (None, emit (Fatalf msg) s2)"
            by auto
          then have "outcome h = Exited" and "client h = rw"
            and "trace (final h) = trace s2 @ [Fatalf msg]"
            using key copy body readable approved
            unfolding h_def ok_def s2_def d_def s1_def key_def path_def
            by (simp_all add: proxyHandler_def Let_def time_Now_def split_beta io_ReadAll_def)
          then have "outcome h = Exited" and "client h = rw"
            and "es = Call_validateRequest d # vs @ [Fatalf msg]"
            unfolding es_def using vs(1) by (auto simp: events_def)
          with key copy body readable approved False d vs fatal [of d] show ?thesis
            by (simp add: approved_def)
        next
          case True
          with getReverseProxy_run [of cfg w s2] avail obtain proxy where
            proxy: "getReverseProxy cfg w s2 = (Some proxy, s2\<lparr>reverseProxy := Some proxy\<rparr>)"
              "case reverseProxy s of
                 Some p \<Rightarrow> proxy = p
               | None \<Rightarrow> (\<exists>u. url_Parse w (ollamaURL cfg) = Inr u \<and> proxy = Director u)"
            by (auto simp: vs(2))
          define outreq where "outreq =
            r\<lparr>Request.Body := (fst (Request.Body r), None),
              Request.URL := proxy (Request.URL r)\<rparr>"
          define rw' where "rw' =
            run (proxy_script w outreq) responseWriter_WriteHeader
              (responseWriter_Write (Write_result w))
              \<lparr>ResponseWriter = rw, body = [], statusCode = 0\<rparr>"
          from run_capturing [of "proxy_script w outreq" "Write_result w"
              "\<lparr>ResponseWriter = rw, body = [], statusCode = 0\<rparr>"]
          obtain cs where
            cs: "ResponseWriter rw' = rw @ cs"
              "run (proxy_script w outreq) ResponseWriter_WriteHeader
                 (ResponseWriter_Write (Write_result w)) rw = rw @ cs"
              "body rw' = written cs"
            unfolding rw'_def by auto
          define how where "how =
            ends (proxy_script w outreq) ResponseWriter_WriteHeader
              (ResponseWriter_Write (Write_result w)) rw"
          have how: "ends (proxy_script w outreq) responseWriter_WriteHeader
              (responseWriter_Write (Write_result w))
              \<lparr>ResponseWriter = rw, body = [], statusCode = 0\<rparr> = how"
            unfolding how_def by (simp add: ends_capturing)
          show ?thesis
          proof (cases "how = Returns")
            case False
            have "outcome h = (case how of Aborts \<Rightarrow> Panicked | _ \<Rightarrow> Blocked)"
              and "client h = ResponseWriter rw'"
              and "trace (final h) = trace s2 @ [ServeHTTP outreq]"
              using key copy body readable approved proxy(1) how False
              unfolding h_def ok_def s2_def d_def s1_def key_def path_def rw'_def outreq_def
              by (cases how;
                  simp add: proxyHandler_def Let_def time_Now_def split_beta
                    io_ReadAll_def ReverseProxy_ServeHTTP_def)+
            then have "outcome h = (case how of Aborts \<Rightarrow> Panicked | _ \<Rightarrow> Blocked)"
              and "client h = rw @ cs"
              and "es = Call_validateRequest d # vs @ [ServeHTTP outreq]"
              unfolding es_def using vs(1) cs by (auto simp: events_def)
            with key copy body readable approved True d vs proxy(2) cs(2) False
              stopped [of d proxy cs]
            show ?thesis
              by (simp add: approved_def outreq_def how_def)
          next
            case returns: True
          have "outcome h = Returned" and "client h = ResponseWriter rw'"
            and "\<exists>e duration. trace (final h) = trace s2 @
                  [ServeHTTP outreq, Println e,
                   Go_sendMetrics
                     \<lparr>MetricsData.APIKey = key,
                      MetricsData.Model = getModelFromRequest w path b,
                      MetricsData.InputTokenLength =
                        fst (getTokenCountsFromResponse w path (body rw')),
                      MetricsData.OutputTokenLength =
                        snd (getTokenCountsFromResponse w path (body rw')),
                      MetricsData.RequestDurationMs = duration,
                      MetricsData.Endpoint = path\<rparr>]"
            using key copy body readable approved proxy(1) how returns
            unfolding h_def ok_def s2_def d_def s1_def key_def path_def rw'_def outreq_def
            by (simp_all add: proxyHandler_def Let_def time_Now_def time_Since_def split_beta
                io_ReadAll_def ReverseProxy_ServeHTTP_def RequestLog_def)
          then obtain e duration where "outcome h = Returned" and "client h = rw @ cs"
            and "es = Call_validateRequest d # vs @
                  [ServeHTTP outreq, Println e,
                   Go_sendMetrics
                     \<lparr>MetricsData.APIKey = key,
                      MetricsData.Model = getModelFromRequest w path (fst (Request.Body r)),
                      MetricsData.InputTokenLength =
                        fst (getTokenCountsFromResponse w path (written cs)),
                      MetricsData.OutputTokenLength =
                        snd (getTokenCountsFromResponse w path (written cs)),
                      MetricsData.RequestDurationMs = duration,
                      MetricsData.Endpoint = path\<rparr>]"
            unfolding es_def using vs(1) cs body by (auto simp: events_def)
          with key copy body readable approved True d vs proxy(2) cs(2) returns
            served [of d proxy cs duration]
          show ?thesis
            by (simp add: approved_def outreq_def how_def)
          qed
        qed
      qed
    qed
  qed
qed

section \<open>Evaluating the concrete deployment\<close>

lemmas example_defs =
  example_world_def example_json_def example_urls_def example_config_def
  example_request_def initial_state_def
  chat_body_def chat_response_body_def verdict_body_def limited_body_def no_message_def
  json.defs world.defs loadConfig_def getEnvOrDefault_def

lemmas pipeline_defs =
  proxyHandler_def validateRequest_def security_headers_def getSecureHTTPClient_def
  Client_Do_def Client_Get_def http_NewRequest_def getReverseProxy_def
  ReverseProxy_ServeHTTP_def responseWriter_Write_def responseWriter_WriteHeader_def
  ResponseWriter_Write_def ResponseWriter_WriteHeader_def http_Error_def
  Info_def Warning_def Error_def RequestLog_def time_Now_def time_Since_def
  Header_Get_def Header_Set_def io_ReadAll_def
  getModelFromRequest_def getTokenCountsFromResponse_def HasSuffix_def HasPrefix_def
  Director_def singleJoiningSlash_def Milliseconds_def
  events_def approved_def verdict_ok_def proxy_available_def Let_def

section \<open>A missing API key\<close>

text \<open>
  C2. For every inbound request whose configured API-key header is absent, has no value or
  has the empty string as its first value, the handler answers 401 with the text
  \<^verbatim>\<open>Unauthorized: Missing API key\<close> and returns. In that run \<^verbatim>\<open>validateRequest\<close> is not called,
  no request is sent to the validation service, nothing is handed to the reverse proxy and
  no metrics goroutine is started; the only event is one log line.
\<close>

theorem missing_key_stops_pipeline:
  fixes cfg :: config and w :: "'w world_scheme" and rw :: ResponseWriter
    and r :: Request and s :: state
  defines "h \<equiv> proxyHandler cfg w rw r s"
  defines "es \<equiv> events s (final h)"
  assumes "case map_of (Request.Header r) (CanonicalMIMEHeaderKey w (apiKeyHeaderName cfg)) of
             None \<Rightarrow> True
           | Some vs \<Rightarrow> vs = [] \<or> hd vs = ''''"
  shows "outcome h = Returned \<and>
         client h = rw @ [WriteHeader 401, Write (''Unauthorized: Missing API key'' @ [CHR 0x0A])] \<and>
         validated es = [] \<and> sent es = [] \<and> proxied es = [] \<and> dispatched es = [] \<and>
         length es = 1"
proof -
  from assms(3)
  have "Header_Get (CanonicalMIMEHeaderKey w) (Request.Header r) (apiKeyHeaderName cfg) = ''''"
    by (auto simp: Header_Get_def split: option.splits list.splits)
  then show ?thesis
    unfolding h_def es_def
    by (cases rule: proxyHandler_run [of w r cfg rw s]) simp_all
qed

text \<open>The request of the example without its key header is answered 401 and nothing else happens.\<close>

theorem missing_key_stops_pipeline_witness:
  "map_of (Request.Header anonymous_request)
      (CanonicalMIMEHeaderKey example_world (apiKeyHeaderName example_config)) = None \<and>
   client (proxyHandler example_config example_world [] anonymous_request initial_state)
     = [WriteHeader 401, Write (''Unauthorized: Missing API key'' @ [CHR 0x0A])] \<and>
   sent (events initial_state
     (final (proxyHandler example_config example_world [] anonymous_request initial_state))) = [] \<and>
   proxied (events initial_state
     (final (proxyHandler example_config example_world [] anonymous_request initial_state))) = [] \<and>
   dispatched (events initial_state
     (final (proxyHandler example_config example_world [] anonymous_request initial_state))) = []"
proof -
  have absent: "map_of (Request.Header anonymous_request)
      (CanonicalMIMEHeaderKey example_world (apiKeyHeaderName example_config)) = None"
    by (simp add: example_defs anonymous_request_def)
  with missing_key_stops_pipeline
    [of anonymous_request example_world example_config "[]" initial_state]
  show ?thesis
    by simp
qed

section \<open>Validation gates the backend\<close>

text \<open>
  C1. For every inbound request with a non-empty API key and a readable body, in a process
  whose reverse proxy can be built: a request is handed to the reverse proxy if and only if
  the validation call was approved, that is, a request was sent to the validation service,
  the call succeeded, the status was exactly 200, the body decoded as a
  \<^verbatim>\<open>ValidationResponse\<close>, \<open>valid\<close> was true and \<open>rateLimited\<close> was false. When
  \<^verbatim>\<open>validateRequest\<close> was called and the outcome is anything else (the details did not marshal,
  the request could not be built or sent, the status was not 200, the body did not decode,
  \<open>valid\<close> was false or \<open>rateLimited\<close> was true), the handler answers 401 and returns, nothing
  is handed to the reverse proxy and no metrics goroutine is started. \<^verbatim>\<open>validateRequest\<close> is
  called, once, whenever every header of the request has a value; the only request it sends
  is a POST of the marshalled details to the validation URL.
\<close>

theorem validation_gates_backend:
  fixes cfg :: config and w :: "'w world_scheme" and rw :: ResponseWriter
    and r :: Request and s :: state
  defines "h \<equiv> proxyHandler cfg w rw r s"
  defines "es \<equiv> events s (final h)"
  assumes "Header_Get (CanonicalMIMEHeaderKey w) (Request.Header r) (apiKeyHeaderName cfg) \<noteq> ''''"
    and "snd (Request.Body r) = None"
    and "proxy_available cfg w s"
  shows "(proxied es \<noteq> [] \<longleftrightarrow> approved w es) \<and>
         (validated es \<noteq> [] \<and> \<not> approved w es \<longrightarrow>
            outcome h = Returned \<and>
            client h = rw @ [WriteHeader 401, Write (''Unauthorized: Invalid request'' @ [CHR 0x0A])] \<and>
            proxied es = [] \<and> dispatched es = []) \<and>
         (copyHeaders (Request.Header r) Map.empty \<noteq> None \<longrightarrow> length (validated es) = 1) \<and>
         length (sent es) \<le> 1 \<and>
         (\<forall>call \<in> set (sent es).
            Request.Method (snd call) = ''POST'' \<and>
            url_Parse w (externalValidationURL cfg) = Inr (Request.URL (snd call)) \<and>
            (\<exists>d \<in> set (validated es).
               Marshal_RequestDetails w d = Inr (fst (Request.Body (snd call)))))"
proof (cases rule: proxyHandler_run [of w r cfg rw s])
  case missing_key
  with assms(3) show ?thesis
    by simp
next
  case panic
  then show ?thesis
    unfolding h_def es_def by (simp add: approved_def)
next
  case (unreadable err)
  with assms(4) show ?thesis
    by simp
next
  case (denied d)
  then show ?thesis
    unfolding h_def es_def by simp
next
  case (fatal d)
  with assms(5) show ?thesis
    by simp
next
  case (served d proxy cs duration)
  then show ?thesis
    unfolding h_def es_def by simp
next
  case (stopped d proxy cs)
  then show ?thesis
    unfolding h_def es_def by simp
qed

text \<open>
  The request of the example is approved and proxied by the example world; the world whose
  validation service answers \<open>rateLimited\<close> answers it 401 and proxies nothing.
\<close>

theorem validation_gates_backend_witness:
  "Header_Get (CanonicalMIMEHeaderKey example_world) (Request.Header example_request)
      (apiKeyHeaderName example_config) = ''test-api-key'' \<and>
   snd (Request.Body example_request) = None \<and>
   proxy_available example_config example_world initial_state \<and>
   approved example_world (events initial_state
       (final (proxyHandler example_config example_world [] example_request initial_state))) \<and>
   proxied (events initial_state
       (final (proxyHandler example_config example_world [] example_request initial_state))) \<noteq> [] \<and>
   proxy_available example_config limiting_world initial_state \<and>
   \<not> approved limiting_world (events initial_state
       (final (proxyHandler example_config limiting_world [] example_request initial_state))) \<and>
   length (validated (events initial_state
       (final (proxyHandler example_config limiting_world [] example_request initial_state)))) = 1 \<and>
   client (proxyHandler example_config limiting_world [] example_request initial_state)
     = [WriteHeader 401, Write (''Unauthorized: Invalid request'' @ [CHR 0x0A])] \<and>
   proxied (events initial_state
       (final (proxyHandler example_config limiting_world [] example_request initial_state))) = [] \<and>
   dispatched (events initial_state
       (final (proxyHandler example_config limiting_world [] example_request initial_state))) = []"
proof -
  have key: "Header_Get (CanonicalMIMEHeaderKey example_world) (Request.Header example_request)
      (apiKeyHeaderName example_config) = ''test-api-key''"
    by (simp add: example_defs Header_Get_def)
  then have key': "Header_Get (CanonicalMIMEHeaderKey limiting_world)
      (Request.Header example_request) (apiKeyHeaderName example_config) = ''test-api-key''"
    by (simp add: limiting_world_def)
  have readable: "snd (Request.Body example_request) = None"
    by (simp add: example_defs)
  have proxy: "proxy_available example_config example_world initial_state"
    by (simp add: example_defs proxy_available_def)
  have proxy': "proxy_available example_config limiting_world initial_state"
    by (simp add: limiting_world_def example_defs proxy_available_def)
  have granted: "approved example_world (events initial_state
       (final (proxyHandler example_config example_world [] example_request initial_state)))"
    by (simp add: example_defs pipeline_defs)
  have denied: "\<not> approved limiting_world (events initial_state
       (final (proxyHandler example_config limiting_world [] example_request initial_state)))"
    by (simp add: limiting_world_def example_defs pipeline_defs)
  have copied: "copyHeaders (Request.Header example_request) Map.empty \<noteq> None"
    by (simp add: example_defs)
  from key have "Header_Get (CanonicalMIMEHeaderKey example_world)
      (Request.Header example_request) (apiKeyHeaderName example_config) \<noteq> ''''"
    by simp
  from validation_gates_backend [OF this readable proxy, where rw = "[]"] granted
  have forwarded: "proxied (events initial_state
       (final (proxyHandler example_config example_world [] example_request initial_state))) \<noteq> []"
    by blast
  from key' have "Header_Get (CanonicalMIMEHeaderKey limiting_world)
      (Request.Header example_request) (apiKeyHeaderName example_config) \<noteq> ''''"
    by simp
  from validation_gates_backend [OF this readable proxy', where rw = "[]"] denied copied
  have "length (validated (events initial_state
       (final (proxyHandler example_config limiting_world [] example_request initial_state)))) = 1"
    and "client (proxyHandler example_config limiting_world [] example_request initial_state)
     = [WriteHeader 401, Write (''Unauthorized: Invalid request'' @ [CHR 0x0A])]"
    and "proxied (events initial_state
       (final (proxyHandler example_config limiting_world [] example_request initial_state))) = []"
    and "dispatched (events initial_state
       (final (proxyHandler example_config limiting_world [] example_request initial_state))) = []"
    by auto
  with key readable proxy proxy' granted forwarded denied show ?thesis
    by simp
qed

section \<open>What the client receives\<close>

text \<open>
  C6. Whatever is written through the capturing writer reaches the client unchanged. One
  \<^verbatim>\<open>Write\<close> appends its bytes to the capture buffer, hands the same bytes to the embedded
  writer and returns what that writer returns; one \<^verbatim>\<open>WriteHeader\<close> records the status code
  and hands the same code to the embedded writer. So for every script of calls, the
  embedded writer ends as if the script had been run on it directly, the buffer holds the
  concatenation of the bytes written and the recorded status is the last one set. For every
  request that the handler hands to the reverse proxy, the client's writer therefore ends
  exactly as if the proxy had written the backend's status code and body to it directly.
\<close>

theorem capturing_writer_forwards_verbatim:
  fixes cfg :: config and w :: "'w world_scheme" and rw :: ResponseWriter
    and r :: Request and s :: state
  defines "h \<equiv> proxyHandler cfg w rw r s"
  defines "es \<equiv> events s (final h)"
  shows "responseWriter_Write result cw b =
           (result (ResponseWriter cw) b,
            cw\<lparr>body := body cw @ b, ResponseWriter := ResponseWriter cw @ [Write b]\<rparr>) \<and>
         responseWriter_WriteHeader cw code =
           cw\<lparr>statusCode := code, ResponseWriter := ResponseWriter cw @ [WriteHeader code]\<rparr> \<and>
         (\<exists>cs. ResponseWriter (run sc responseWriter_WriteHeader (responseWriter_Write result) cw)
                  = ResponseWriter cw @ cs \<and>
                run sc ResponseWriter_WriteHeader (ResponseWriter_Write result) (ResponseWriter cw)
                  = ResponseWriter cw @ cs \<and>
                body (run sc responseWriter_WriteHeader (responseWriter_Write result) cw)
                  = body cw @ written cs \<and>
                statusCode (run sc responseWriter_WriteHeader (responseWriter_Write result) cw)
                  = last_status (statusCode cw) cs) \<and>
         (\<forall>req \<in> set (proxied es).
            client h = run (proxy_script w req) ResponseWriter_WriteHeader
                         (ResponseWriter_Write (Write_result w)) rw)"
proof (intro conjI)
  show "responseWriter_Write result cw b =
      (result (ResponseWriter cw) b,
       cw\<lparr>body := body cw @ b, ResponseWriter := ResponseWriter cw @ [Write b]\<rparr>)"
    by (simp add: responseWriter_Write_def ResponseWriter_Write_def)
  show "responseWriter_WriteHeader cw code =
      cw\<lparr>statusCode := code, ResponseWriter := ResponseWriter cw @ [WriteHeader code]\<rparr>"
    by (simp add: responseWriter_WriteHeader_def ResponseWriter_WriteHeader_def)
  show "\<exists>cs. ResponseWriter (run sc responseWriter_WriteHeader (responseWriter_Write result) cw)
                  = ResponseWriter cw @ cs \<and>
                run sc ResponseWriter_WriteHeader (ResponseWriter_Write result) (ResponseWriter cw)
                  = ResponseWriter cw @ cs \<and>
                body (run sc responseWriter_WriteHeader (responseWriter_Write result) cw)
                  = body cw @ written cs \<and>
                statusCode (run sc responseWriter_WriteHeader (responseWriter_Write result) cw)
                  = last_status (statusCode cw) cs"
    by (rule run_capturing)
  show "\<forall>req \<in> set (proxied es).
      client h = run (proxy_script w req) ResponseWriter_WriteHeader
                   (ResponseWriter_Write (Write_result w)) rw"
    unfolding h_def es_def
    by (cases rule: proxyHandler_run [of w r cfg rw s]) simp_all
qed

text \<open>
  In the example the backend answers 200 with the chat response: the client is sent that
  status and those bytes, and nothing else.
\<close>

theorem capturing_writer_forwards_verbatim_witness:
  "length (proxied (events initial_state
      (final (proxyHandler example_config example_world [] example_request initial_state)))) = 1 \<and>
   client (proxyHandler example_config example_world [] example_request initial_state)
     = [WriteHeader 200, Write chat_response_body] \<and>
   body (run (CallWriteHeader 200 (CallWrite chat_response_body (\<lambda>res. Return)))
           responseWriter_WriteHeader (responseWriter_Write (\<lambda>rw b. (length b, None)))
           \<lparr>ResponseWriter = [], body = [], statusCode = 0\<rparr>) = chat_response_body \<and>
   statusCode (run (CallWriteHeader 200 (CallWrite chat_response_body (\<lambda>res. Return)))
           responseWriter_WriteHeader (responseWriter_Write (\<lambda>rw b. (length b, None)))
           \<lparr>ResponseWriter = [], body = [], statusCode = 0\<rparr>) = 200"
proof -
  have one: "proxied (events initial_state
      (final (proxyHandler example_config example_world [] example_request initial_state)))
    = [example_request\<lparr>Request.URL :=
         \<lparr>Scheme = ''http'', Host = ''localhost:11434'', Path = ''/api/chat'', RawQuery = ''''\<rparr>\<rparr>]"
    by (simp add: example_defs pipeline_defs)
  have direct: "run (proxy_script example_world (example_request\<lparr>Request.URL :=
         \<lparr>Scheme = ''http'', Host = ''localhost:11434'', Path = ''/api/chat'', RawQuery = ''''\<rparr>\<rparr>))
       ResponseWriter_WriteHeader (ResponseWriter_Write (Write_result example_world)) []
     = [WriteHeader 200, Write chat_response_body]"
    by (simp add: example_defs ResponseWriter_Write_def ResponseWriter_WriteHeader_def)
  from capturing_writer_forwards_verbatim
    [where result = "\<lambda>rw b. (length b, None)"
       and cw = "\<lparr>ResponseWriter = [], body = [], statusCode = 0\<rparr>"
       and b = chat_response_body and code = 200
       and sc = "CallWriteHeader 200 (CallWrite chat_response_body (\<lambda>res. Return))"
       and cfg = example_config and w = example_world and rw = "[]"
       and r = example_request and s = initial_state]
  have "\<forall>req \<in> set (proxied (events initial_state
      (final (proxyHandler example_config example_world [] example_request initial_state)))).
      client (proxyHandler example_config example_world [] example_request initial_state)
        = run (proxy_script example_world req) ResponseWriter_WriteHeader
            (ResponseWriter_Write (Write_result example_world)) []"
    by blast
  with one direct
  have "client (proxyHandler example_config example_world [] example_request initial_state)
     = [WriteHeader 200, Write chat_response_body]"
    by simp
  moreover have "body (run (CallWriteHeader 200 (CallWrite chat_response_body (\<lambda>res. Return)))
           responseWriter_WriteHeader (responseWriter_Write (\<lambda>rw b. (length b, None)))
           \<lparr>ResponseWriter = [], body = [], statusCode = 0\<rparr>) = chat_response_body"
    and "statusCode (run (CallWriteHeader 200 (CallWrite chat_response_body (\<lambda>res. Return)))
           responseWriter_WriteHeader (responseWriter_Write (\<lambda>rw b. (length b, None)))
           \<lparr>ResponseWriter = [], body = [], statusCode = 0\<rparr>) = 200"
    by (simp_all add: responseWriter_Write_def responseWriter_WriteHeader_def
        ResponseWriter_Write_def ResponseWriter_WriteHeader_def)
  ultimately show ?thesis
    using one by simp
qed

section \<open>Request details and metrics\<close>

text \<open>
  C7. For every run of the handler that starts a metrics goroutine, the \<^verbatim>\<open>MetricsData\<close>
  handed to it has the \<open>apiKey\<close>, \<open>model\<close> and \<open>endpoint\<close> of the \<^verbatim>\<open>RequestDetails\<close> that the
  same run handed to \<^verbatim>\<open>validateRequest\<close>. The three values are functions of the inbound
  request alone: the configured header of the request, the model extracted from the
  request path and the request body, and the request path. Nothing of the proxied response
  enters them.
\<close>

theorem metrics_share_request_fields:
  fixes cfg :: config and w :: "'w world_scheme" and rw :: ResponseWriter
    and r :: Request and s :: state
  defines "h \<equiv> proxyHandler cfg w rw r s"
  defines "es \<equiv> events s (final h)"
  assumes "m \<in> set (dispatched es)"
  shows "(\<exists>d. validated es = [d] \<and>
            MetricsData.APIKey m = RequestDetails.APIKey d \<and>
            MetricsData.Model m = RequestDetails.Model d \<and>
            MetricsData.Endpoint m = RequestDetails.Endpoint d) \<and>
         MetricsData.APIKey m =
           Header_Get (CanonicalMIMEHeaderKey w) (Request.Header r) (apiKeyHeaderName cfg) \<and>
         MetricsData.Model m =
           getModelFromRequest w (Path (Request.URL r)) (fst (Request.Body r)) \<and>
         MetricsData.Endpoint m = Path (Request.URL r)"
proof (cases rule: proxyHandler_run [of w r cfg rw s])
  case missing_key
  with assms(3) show ?thesis
    unfolding es_def h_def by simp
next
  case panic
  with assms(3) show ?thesis
    unfolding es_def h_def by simp
next
  case (unreadable err)
  with assms(3) show ?thesis
    unfolding es_def h_def by simp
next
  case (denied d)
  with assms(3) show ?thesis
    unfolding es_def h_def by simp
next
  case (fatal d)
  with assms(3) show ?thesis
    unfolding es_def h_def by simp
next
  case (served d proxy cs duration)
  with assms(3) have "m = \<lparr>MetricsData.APIKey =
        Header_Get (CanonicalMIMEHeaderKey w) (Request.Header r) (apiKeyHeaderName cfg),
      MetricsData.Model = getModelFromRequest w (Path (Request.URL r)) (fst (Request.Body r)),
      MetricsData.InputTokenLength =
        fst (getTokenCountsFromResponse w (Path (Request.URL r)) (written cs)),
      MetricsData.OutputTokenLength =
        snd (getTokenCountsFromResponse w (Path (Request.URL r)) (written cs)),
      MetricsData.RequestDurationMs = duration,
      MetricsData.Endpoint = Path (Request.URL r)\<rparr>"
    unfolding es_def h_def by simp
  with served show ?thesis
    unfolding es_def h_def by simp
next
  case (stopped d proxy cs)
  with assms(3) show ?thesis
    unfolding es_def h_def by simp
qed

text \<open>
  In the example one goroutine is started; its metrics and the request details carry the
  key \<^verbatim>\<open>test-api-key\<close>, the model \<^verbatim>\<open>llama2\<close> and the endpoint \<^verbatim>\<open>/api/chat\<close>.
\<close>

theorem metrics_share_request_fields_witness:
  "dispatched (events initial_state
      (final (proxyHandler example_config example_world [] example_request initial_state)))
     = [\<lparr>MetricsData.APIKey = ''test-api-key'', MetricsData.Model = ''llama2'',
         MetricsData.InputTokenLength = 10, MetricsData.OutputTokenLength = 20,
         MetricsData.RequestDurationMs = 2, MetricsData.Endpoint = ''/api/chat''\<rparr>] \<and>
   (\<exists>d. validated (events initial_state
           (final (proxyHandler example_config example_world [] example_request initial_state)))
          = [d] \<and>
        RequestDetails.APIKey d = ''test-api-key'' \<and>
        RequestDetails.Model d = ''llama2'' \<and>
        RequestDetails.Endpoint d = ''/api/chat'')"
proof -
  have sent: "dispatched (events initial_state
      (final (proxyHandler example_config example_world [] example_request initial_state)))
     = [\<lparr>MetricsData.APIKey = ''test-api-key'', MetricsData.Model = ''llama2'',
         MetricsData.InputTokenLength = 10, MetricsData.OutputTokenLength = 20,
         MetricsData.RequestDurationMs = 2, MetricsData.Endpoint = ''/api/chat''\<rparr>]"
    by (simp add: example_defs pipeline_defs)
  then have "\<lparr>MetricsData.APIKey = ''test-api-key'', MetricsData.Model = ''llama2'',
         MetricsData.InputTokenLength = 10, MetricsData.OutputTokenLength = 20,
         MetricsData.RequestDurationMs = 2, MetricsData.Endpoint = ''/api/chat''\<rparr>
      \<in> set (dispatched (events initial_state
      (final (proxyHandler example_config example_world [] example_request initial_state))))"
    by simp
  from metrics_share_request_fields [OF this] sent show ?thesis
    by auto
qed

text \<open>
  C9. In every run of the handler, the \<^verbatim>\<open>RequestDetails\<close> handed to \<^verbatim>\<open>validateRequest\<close> has
  \<open>inputTokenLength\<close> equal to 0, and the body of every request sent to the validation
  service is the marshalled form of such a value: the field is serialised and never assigned.
\<close>

theorem validation_details_input_tokens_zero:
  fixes cfg :: config and w :: "'w world_scheme" and rw :: ResponseWriter
    and r :: Request and s :: state
  defines "h \<equiv> proxyHandler cfg w rw r s"
  defines "es \<equiv> events s (final h)"
  shows "(\<forall>d \<in> set (validated es). RequestDetails.InputTokenLength d = 0) \<and>
         (\<forall>call \<in> set (sent es). \<exists>d \<in> set (validated es).
            Marshal_RequestDetails w d = Inr (fst (Request.Body (snd call))) \<and>
            RequestDetails.InputTokenLength d = 0)"
proof (cases rule: proxyHandler_run [of w r cfg rw s])
  case missing_key
  then show ?thesis
    unfolding es_def h_def by simp
next
  case panic
  then show ?thesis
    unfolding es_def h_def by simp
next
  case (unreadable err)
  then show ?thesis
    unfolding es_def h_def by simp
next
  case (denied d)
  then show ?thesis
    unfolding es_def h_def by simp
next
  case (fatal d)
  then show ?thesis
    unfolding es_def h_def by simp
next
  case (served d proxy cs duration)
  then show ?thesis
    unfolding es_def h_def by simp
next
  case (stopped d proxy cs)
  then show ?thesis
    unfolding es_def h_def by simp
qed

text \<open>In the example one request is sent to the validation service, for details with the value 0.\<close>

theorem validation_details_input_tokens_zero_witness:
  "length (sent (events initial_state
      (final (proxyHandler example_config example_world [] example_request initial_state)))) = 1 \<and>
   (\<exists>d. validated (events initial_state
           (final (proxyHandler example_config example_world [] example_request initial_state)))
          = [d] \<and>
        RequestDetails.InputTokenLength d = 0)"
proof -
  have one: "length (sent (events initial_state
      (final (proxyHandler example_config example_world [] example_request initial_state)))) = 1"
    by (simp add: example_defs pipeline_defs)
  have "length (validated (events initial_state
      (final (proxyHandler example_config example_world [] example_request initial_state)))) = 1"
    by (simp add: example_defs pipeline_defs)
  then obtain d where d: "validated (events initial_state
      (final (proxyHandler example_config example_world [] example_request initial_state))) = [d]"
    by (auto simp: length_Suc_conv)
  with validation_details_input_tokens_zero
    [where cfg = example_config and w = example_world and rw = "[]"
       and r = example_request and s = initial_state]
  have "RequestDetails.InputTokenLength d = 0"
    by simp
  with one d show ?thesis
    by simp
qed

text \<open>
  C10, as amended. For every request whose validation call was approved, in a process whose
  reverse proxy can be built, the handler hands exactly one request to the reverse proxy.
  When that call returns, the handler starts exactly one metrics goroutine and returns,
  whatever the proxy wrote: a gateway error status because the backend could not be
  reached, an error status of the backend, an empty body or a body that is not JSON. The
  token counts of the metrics are those extracted from the bytes that were written to the
  client. When the call aborts the handler or never returns, the handler does not return
  and starts no metrics goroutine.
\<close>

theorem returning_proxy_dispatches_one_metric:
  fixes cfg :: config and w :: "'w world_scheme" and rw :: ResponseWriter
    and r :: Request and s :: state
  defines "h \<equiv> proxyHandler cfg w rw r s"
  defines "es \<equiv> events s (final h)"
  assumes "approved w es" and "proxy_available cfg w s"
  shows "\<exists>req cs.
           proxied es = [req] \<and> client h = rw @ cs \<and>
           run (proxy_script w req) ResponseWriter_WriteHeader
             (ResponseWriter_Write (Write_result w)) rw = rw @ cs \<and>
           (ends (proxy_script w req) ResponseWriter_WriteHeader
              (ResponseWriter_Write (Write_result w)) rw = Returns \<longrightarrow>
              outcome h = Returned \<and>
              (\<exists>m. dispatched es = [m] \<and>
                 (MetricsData.InputTokenLength m, MetricsData.OutputTokenLength m) =
                   getTokenCountsFromResponse w (Path (Request.URL r)) (written cs))) \<and>
           (ends (proxy_script w req) ResponseWriter_WriteHeader
              (ResponseWriter_Write (Write_result w)) rw \<noteq> Returns \<longrightarrow>
              outcome h \<noteq> Returned \<and> dispatched es = [])"
proof (cases rule: proxyHandler_run [of w r cfg rw s])
  case missing_key
  with assms(3) show ?thesis
    unfolding es_def h_def by (simp add: approved_def)
next
  case panic
  with assms(3) show ?thesis
    unfolding es_def h_def by (simp add: approved_def)
next
  case (unreadable err)
  with assms(3) show ?thesis
    unfolding es_def h_def by (simp add: approved_def)
next
  case (denied d)
  with assms(3) show ?thesis
    unfolding es_def h_def by simp
next
  case (fatal d)
  with assms(4) show ?thesis
    by simp
next
  case (served d proxy cs duration)
  then show ?thesis
    unfolding es_def h_def by simp
next
  case (stopped d proxy cs)
  then show ?thesis
    unfolding es_def h_def by (simp split: ending.splits)
qed

text \<open>
  When the backend of the example cannot be reached and the proxy answers 502 with no body
  and returns, the approved request starts one goroutine, with zero for both counts.
\<close>

theorem returning_proxy_dispatches_one_metric_witness:
  "approved failing_world (events initial_state
      (final (proxyHandler example_config failing_world [] example_request initial_state))) \<and>
   proxy_available example_config failing_world initial_state \<and>
   client (proxyHandler example_config failing_world [] example_request initial_state)
     = [WriteHeader 502] \<and>
   outcome (proxyHandler example_config failing_world [] example_request initial_state)
     = Returned \<and>
   dispatched (events initial_state
      (final (proxyHandler example_config failing_world [] example_request initial_state)))
     = [\<lparr>MetricsData.APIKey = ''test-api-key'', MetricsData.Model = ''llama2'',
         MetricsData.InputTokenLength = 0, MetricsData.OutputTokenLength = 0,
         MetricsData.RequestDurationMs = 2, MetricsData.Endpoint = ''/api/chat''\<rparr>]"
proof -
  have ok: "approved failing_world (events initial_state
      (final (proxyHandler example_config failing_world [] example_request initial_state)))"
    by (simp add: failing_world_def example_defs pipeline_defs)
  have proxy: "proxy_available example_config failing_world initial_state"
    by (simp add: failing_world_def example_defs proxy_available_def)
  have client: "client (proxyHandler example_config failing_world [] example_request initial_state)
     = [WriteHeader 502]"
    by (simp add: failing_world_def example_defs pipeline_defs)
  have fields: "map (\<lambda>m. (MetricsData.APIKey m, MetricsData.Model m,
        MetricsData.RequestDurationMs m, MetricsData.Endpoint m))
      (dispatched (events initial_state
        (final (proxyHandler example_config failing_world [] example_request initial_state))))
     = [(''test-api-key'', ''llama2'', 2, ''/api/chat'')]"
    by (simp add: failing_world_def example_defs pipeline_defs)
  have returns: "ends (proxy_script failing_world req) ResponseWriter_WriteHeader
      (ResponseWriter_Write (Write_result failing_world)) [] = Returns" for req
    by (simp add: failing_world_def example_defs)
  have zero: "getTokenCountsFromResponse failing_world (Path (Request.URL example_request))
      (written [WriteHeader 502]) = (0, 0)"
    by (simp add: failing_world_def example_defs getTokenCountsFromResponse_def HasSuffix_def)
  from returning_proxy_dispatches_one_metric [OF ok proxy] client returns zero
  obtain m where "outcome (proxyHandler example_config failing_world [] example_request
      initial_state) = Returned"
    and "dispatched (events initial_state
      (final (proxyHandler example_config failing_world [] example_request initial_state))) = [m]"
    and "MetricsData.InputTokenLength m = 0" and "MetricsData.OutputTokenLength m = 0"
    by auto
  with fields have "outcome (proxyHandler example_config failing_world [] example_request
      initial_state) = Returned"
    and "dispatched (events initial_state
      (final (proxyHandler example_config failing_world [] example_request initial_state)))
     = [\<lparr>MetricsData.APIKey = ''test-api-key'', MetricsData.Model = ''llama2'',
         MetricsData.InputTokenLength = 0, MetricsData.OutputTokenLength = 0,
         MetricsData.RequestDurationMs = 2, MetricsData.Endpoint = ''/api/chat''\<rparr>]"
    by (cases m; simp)+
  with ok proxy client show ?thesis
    by simp
qed

text \<open>
  The claim as first stated, that every approved request starts exactly one metrics
  goroutine even when the backend call fails, is false where the backend of the example
  answers 200 and its connection breaks while the body is copied: the reverse proxy aborts
  the handler, the client has been sent the status and the first bytes, and no goroutine is
  started.
\<close>

theorem aborted_proxy_dispatches_no_metric:
  "approved aborting_world (events initial_state
      (final (proxyHandler example_config aborting_world [] example_request initial_state))) \<and>
   proxy_available example_config aborting_world initial_state \<and>
   outcome (proxyHandler example_config aborting_world [] example_request initial_state)
     = Panicked \<and>
   client (proxyHandler example_config aborting_world [] example_request initial_state)
     = [WriteHeader 200, Write (take 20 chat_response_body)] \<and>
   length (dispatched (events initial_state
      (final (proxyHandler example_config aborting_world [] example_request initial_state))))
     \<noteq> 1"
  by (simp add: aborting_world_def example_defs pipeline_defs)

section \<open>The health check and the listener\<close>

lemma startup_steps_Nil [simp]: "listening [] = []" "exits [] = []"
  by (simp_all add: listening_def exits_def)

lemma startup_steps_append [simp]:
  "listening (es @ fs) = listening es @ listening fs"
  "exits (es @ fs) = exits es @ exits fs"
  by (simp_all add: listening_def exits_def)

lemma listening_Cons [simp]:
  "listening (e # es) = (case e of ListenAndServe addr \<Rightarrow> [addr] | _ \<Rightarrow> []) @ listening es"
  by (simp add: listening_def)

lemma exits_Cons [simp]:
  "exits (e # es) = (case e of Exit code \<Rightarrow> [code] | _ \<Rightarrow> []) @ exits es"
  by (simp add: exits_def)

lemma getSecureHTTPClient_startup:
  "\<exists>es. trace (snd (getSecureHTTPClient cfg w s)) = trace s @ es \<and>
        sent es = [] \<and> listening es = [] \<and> exits es = []"
  by (auto simp: getSecureHTTPClient_def Let_def split: sum.splits)

text \<open>
  One probe: it logs, sends at most one request and opens no listener. It returns no error
  exactly when it sent the GET of its URL and the answer had status 200.
\<close>

lemma validateOllamaService_run:
  "\<exists>es. trace (snd (validateOllamaService cfg w s)) = trace s @ es \<and>
        listening es = [] \<and> exits es = [] \<and>
        (case fst (validateOllamaService cfg w s) of
           None \<Rightarrow> (\<exists>call. sent es = [call] \<and> probe_ok w call \<and>
                      is_probe w (ollamaURL cfg @ ''/api/tags'') call)
         | Some e \<Rightarrow> (sent es = [] \<and> (\<forall>u. url_Parse w (ollamaURL cfg @ ''/api/tags'') \<noteq> Inr u)) \<or>
                      (\<exists>call. sent es = [call] \<and> \<not> probe_ok w call \<and>
                         is_probe w (ollamaURL cfg @ ''/api/tags'') call))"
proof -
  define client where "client = fst (getSecureHTTPClient cfg w s)"
  define s1 where "s1 = snd (getSecureHTTPClient cfg w s)"
  from getSecureHTTPClient_startup [of cfg w s] obtain ps where
    ps: "trace s1 = trace s @ ps" "sent ps = []" "listening ps = []" "exits ps = []"
    unfolding s1_def by auto
  have unfold: "validateOllamaService cfg w s =
    (case Client_Get w client (ollamaURL cfg @ ''/api/tags'') s1 of
       (Inl err, s2) \<Rightarrow>
         (Some (''failed to connect to Ollama service: '' @ err),
          Error w ''Failed to connect to Ollama service'' (Some err) Map.empty s2)
     | (Inr resp, s2) \<Rightarrow>
         if StatusCode resp \<noteq> 200 then
           (Some (''Ollama service returned non-OK status: '' @ Sprintf_d (StatusCode resp)),
            Warning w ''Ollama service returned non-OK status''
              [''status_code'' \<mapsto> IntValue (StatusCode resp)] s2)
         else (None, s2))"
    unfolding client_def s1_def
    by (simp add: validateOllamaService_def Let_def split_beta split: sum.splits)
  show ?thesis
    unfolding unfold using ps
    by (auto simp: Client_Get_def Client_Do_def http_NewRequest_def Error_def Warning_def
        probe_ok_def is_probe_def split: sum.splits)
qed

lemma validateExternalValidationService_run:
  "\<exists>es. trace (snd (validateExternalValidationService cfg w s)) = trace s @ es \<and>
        listening es = [] \<and> exits es = [] \<and>
        (case fst (validateExternalValidationService cfg w s) of
           None \<Rightarrow> (\<exists>call. sent es = [call] \<and> probe_ok w call \<and>
                      is_probe w (externalValidationURL cfg) call)
         | Some e \<Rightarrow> (sent es = [] \<and> (\<forall>u. url_Parse w (externalValidationURL cfg) \<noteq> Inr u)) \<or>
                      (\<exists>call. sent es = [call] \<and> \<not> probe_ok w call \<and>
                         is_probe w (externalValidationURL cfg) call))"
proof -
  define client where "client = fst (getSecureHTTPClient cfg w s)"
  define s1 where "s1 = snd (getSecureHTTPClient cfg w s)"
  from getSecureHTTPClient_startup [of cfg w s] obtain ps where
    ps: "trace s1 = trace s @ ps" "sent ps = []" "listening ps = []" "exits ps = []"
    unfolding s1_def by auto
  have unfold: "validateExternalValidationService cfg w s =
    (case http_NewRequest w ''GET'' (externalValidationURL cfg) [] of
       Inl err \<Rightarrow>
         (Some (''failed to create validation request: '' @ err),
          Error w ''Failed to create validation request'' (Some err) Map.empty s1)
     | Inr req0 \<Rightarrow>
        (case Client_Do w client (fst (security_headers cfg w req0 s1))
                (snd (security_headers cfg w req0 s1)) of
           (Inl err, s3) \<Rightarrow>
             (Some (''failed to connect to validation service: '' @ err),
              Error w ''Failed to connect to validation service'' (Some err) Map.empty s3)
         | (Inr resp, s3) \<Rightarrow>
             if StatusCode resp \<noteq> 200 then
               (Some (''validation service returned non-OK status: ''
                        @ Sprintf_d (StatusCode resp)),
                Warning w ''Validation service returned non-OK status''
                  [''status_code'' \<mapsto> IntValue (StatusCode resp)] s3)
             else (None, s3)))"
    unfolding client_def s1_def
    by (simp add: validateExternalValidationService_def Let_def split_beta split: sum.splits)
  show ?thesis
    unfolding unfold using ps
    by (auto simp: Client_Do_def http_NewRequest_def Error_def Warning_def
        probe_ok_def is_probe_def split: sum.splits)
qed

lemma validateExternalMetricsService_run:
  "\<exists>es. trace (snd (validateExternalMetricsService cfg w s)) = trace s @ es \<and>
        listening es = [] \<and> exits es = [] \<and>
        (case fst (validateExternalMetricsService cfg w s) of
           None \<Rightarrow> (\<exists>call. sent es = [call] \<and> probe_ok w call \<and>
                      is_probe w (externalMetricsURL cfg) call)
         | Some e \<Rightarrow> (sent es = [] \<and> (\<forall>u. url_Parse w (externalMetricsURL cfg) \<noteq> Inr u)) \<or>
                      (\<exists>call. sent es = [call] \<and> \<not> probe_ok w call \<and>
                         is_probe w (externalMetricsURL cfg) call))"
proof -
  define client where "client = fst (getSecureHTTPClient cfg w s)"
  define s1 where "s1 = snd (getSecureHTTPClient cfg w s)"
  from getSecureHTTPClient_startup [of cfg w s] obtain ps where
    ps: "trace s1 = trace s @ ps" "sent ps = []" "listening ps = []" "exits ps = []"
    unfolding s1_def by auto
  have unfold: "validateExternalMetricsService cfg w s =
    (case http_NewRequest w ''GET'' (externalMetricsURL cfg) [] of
       Inl err \<Rightarrow>
         (Some (''failed to create metrics request: '' @ err),
          Error w ''Failed to create metrics request'' (Some err) Map.empty s1)
     | Inr req0 \<Rightarrow>
        (case Client_Do w client (fst (security_headers cfg w req0 s1))
                (snd (security_headers cfg w req0 s1)) of
           (Inl err, s3) \<Rightarrow>
             (Some (''failed to connect to metrics service: '' @ err),
              Error w ''Failed to connect to metrics service'' (Some err) Map.empty s3)
         | (Inr resp, s3) \<Rightarrow>
             if StatusCode resp \<noteq> 200 then
               (Some (''metrics service returned non-OK status: ''
                        @ Sprintf_d (StatusCode resp)),
                Warning w ''Metrics service returned non-OK status''
                  [''status_code'' \<mapsto> IntValue (StatusCode resp)] s3)
             else (None, s3)))"
    unfolding client_def s1_def
    by (simp add: validateExternalMetricsService_def Let_def split_beta split: sum.splits)
  show ?thesis
    unfolding unfold using ps
    by (auto simp: Client_Do_def http_NewRequest_def Error_def Warning_def
        probe_ok_def is_probe_def split: sum.splits)
qed

lemma validateExternalServices_run:
  "\<exists>es. trace (snd (validateExternalServices cfg w s)) = trace s @ es \<and>
        listening es = [] \<and> exits es = [] \<and>
        length (sent es) \<le> 3 \<and>
        (\<forall>i < length (sent es). is_probe w (probe_urls cfg ! i) (sent es ! i)) \<and>
        ((\<exists>u. url_Parse w (ollamaURL cfg @ ''/api/tags'') = Inr u) \<longrightarrow>
           1 \<le> length (sent es)) \<and>
        (1 \<le> length (sent es) \<and> probe_ok w (sent es ! 0) \<and>
         (\<exists>u. url_Parse w (externalValidationURL cfg) = Inr u) \<longrightarrow>
           2 \<le> length (sent es)) \<and>
        (2 \<le> length (sent es) \<and> probe_ok w (sent es ! 0) \<and> probe_ok w (sent es ! 1) \<and>
         (\<exists>u. url_Parse w (externalMetricsURL cfg) = Inr u) \<longrightarrow>
           length (sent es) = 3) \<and>
        list_all (probe_ok w) (butlast (sent es)) \<and>
        (fst (validateExternalServices cfg w s) = None \<longleftrightarrow>
           length (sent es) = 3 \<and> list_all (probe_ok w) (sent es)) \<and>
        (\<forall>e. fst (validateExternalServices cfg w s) = Some e \<longrightarrow>
           (\<exists>cause. e = ''Ollama service validation failed: '' @ cause \<or>
                    e = ''External validation service validation failed: '' @ cause \<or>
                    e = ''External metrics service validation failed: '' @ cause))"
proof -
  obtain e1 s1 where r1: "validateOllamaService cfg w s = (e1, s1)"
    by (cases "validateOllamaService cfg w s")
  from validateOllamaService_run [of cfg w s] r1 obtain es1 where
    es1: "trace s1 = trace s @ es1" "listening es1 = []" "exits es1 = []"
      "case e1 of
         None \<Rightarrow> (\<exists>call. sent es1 = [call] \<and> probe_ok w call \<and>
                    is_probe w (ollamaURL cfg @ ''/api/tags'') call)
       | Some e \<Rightarrow> (sent es1 = [] \<and> (\<forall>u. url_Parse w (ollamaURL cfg @ ''/api/tags'') \<noteq> Inr u)) \<or>
                    (\<exists>call. sent es1 = [call] \<and> \<not> probe_ok w call \<and>
                       is_probe w (ollamaURL cfg @ ''/api/tags'') call)"
    by auto
  show ?thesis
  proof (cases e1)
    case (Some e)
    with r1 have "validateExternalServices cfg w s =
        (Some (''Ollama service validation failed: '' @ e), s1)"
      by (simp add: validateExternalServices_def)
    with es1 Some show ?thesis
      by (intro exI [of _ es1]) (auto simp: probe_urls_def less_Suc_eq)
  next
    case None
    note ok1 = this
    with es1 obtain c1 where c1: "sent es1 = [c1]" "probe_ok w c1"
      "is_probe w (ollamaURL cfg @ ''/api/tags'') c1"
      by auto
    obtain e2 s2 where r2: "validateExternalValidationService cfg w s1 = (e2, s2)"
      by (cases "validateExternalValidationService cfg w s1")
    from validateExternalValidationService_run [of cfg w s1] r2 obtain es2 where
      es2: "trace s2 = trace s1 @ es2" "listening es2 = []" "exits es2 = []"
        "case e2 of
           None \<Rightarrow> (\<exists>call. sent es2 = [call] \<and> probe_ok w call \<and>
                      is_probe w (externalValidationURL cfg) call)
         | Some e \<Rightarrow> (sent es2 = [] \<and> (\<forall>u. url_Parse w (externalValidationURL cfg) \<noteq> Inr u)) \<or>
                      (\<exists>call. sent es2 = [call] \<and> \<not> probe_ok w call \<and>
                         is_probe w (externalValidationURL cfg) call)"
      by auto
    show ?thesis
    proof (cases e2)
      case (Some e)
      with r1 r2 ok1 have "validateExternalServices cfg w s =
          (Some (''External validation service validation failed: '' @ e), s2)"
        by (simp add: validateExternalServices_def)
      with es1 es2 c1 Some show ?thesis
        by (intro exI [of _ "es1 @ es2"]) (auto simp: probe_urls_def less_Suc_eq)
    next
      case None
      note ok2 = this
      with es2 obtain c2 where c2: "sent es2 = [c2]" "probe_ok w c2"
        "is_probe w (externalValidationURL cfg) c2"
        by auto
      obtain e3 s3 where r3: "validateExternalMetricsService cfg w s2 = (e3, s3)"
        by (cases "validateExternalMetricsService cfg w s2")
      from validateExternalMetricsService_run [of cfg w s2] r3 obtain es3 where
        es3: "trace s3 = trace s2 @ es3" "listening es3 = []" "exits es3 = []"
          "case e3 of
             None \<Rightarrow> (\<exists>call. sent es3 = [call] \<and> probe_ok w call \<and>
                        is_probe w (externalMetricsURL cfg) call)
           | Some e \<Rightarrow> (sent es3 = [] \<and> (\<forall>u. url_Parse w (externalMetricsURL cfg) \<noteq> Inr u)) \<or>
                        (\<exists>call. sent es3 = [call] \<and> \<not> probe_ok w call \<and>
                           is_probe w (externalMetricsURL cfg) call)"
        by auto
      show ?thesis
      proof (cases e3)
        case (Some e)
        with r1 r2 r3 ok1 ok2 have "validateExternalServices cfg w s =
            (Some (''External metrics service validation failed: '' @ e), s3)"
          by (simp add: validateExternalServices_def)
        with es1 es2 es3 c1 c2 Some show ?thesis
          by (intro exI [of _ "es1 @ es2 @ es3"]) (auto simp: probe_urls_def less_Suc_eq)
      next
        case None
        with r1 r2 r3 ok1 ok2 have "validateExternalServices cfg w s = (None, s3)"
          by (simp add: validateExternalServices_def)
        with es1 es2 es3 c1 c2 None show ?thesis
          by (intro exI [of _ "es1 @ es2 @ es3"]) (auto simp: probe_urls_def less_Suc_eq)
      qed
    qed
  qed
qed

lemma main_config_run:
  "\<exists>es. trace (snd (main_config env w s)) = trace s @ es \<and>
        sent es = [] \<and> listening es = [] \<and> exits es = []"
  by (auto simp: main_config_def Warning_def split: sum.splits)

lemma healthy_check_passes:
  assumes parse: "\<forall>url \<in> set (probe_urls cfg). \<exists>u. url_Parse w url = Inr u"
    and answer: "\<forall>call. (\<exists>url \<in> set (probe_urls cfg). is_probe w url call) \<longrightarrow> probe_ok w call"
  shows "fst (validateExternalServices cfg w s) = None"
proof -
  from validateExternalServices_run [of cfg w s] obtain es where
    es: "length (sent es) \<le> 3"
      "\<forall>i < length (sent es). is_probe w (probe_urls cfg ! i) (sent es ! i)"
      "(\<exists>u. url_Parse w (ollamaURL cfg @ ''/api/tags'') = Inr u) \<longrightarrow> 1 \<le> length (sent es)"
      "1 \<le> length (sent es) \<and> probe_ok w (sent es ! 0) \<and>
         (\<exists>u. url_Parse w (externalValidationURL cfg) = Inr u) \<longrightarrow> 2 \<le> length (sent es)"
      "2 \<le> length (sent es) \<and> probe_ok w (sent es ! 0) \<and> probe_ok w (sent es ! 1) \<and>
         (\<exists>u. url_Parse w (externalMetricsURL cfg) = Inr u) \<longrightarrow> length (sent es) = 3"
      "fst (validateExternalServices cfg w s) = None \<longleftrightarrow>
         length (sent es) = 3 \<and> list_all (probe_ok w) (sent es)"
    by (elim exE conjE) (rule that, assumption+)
  have ok: "probe_ok w (sent es ! i)" if "i < length (sent es)" for i
  proof -
    from that es(1) have "i < length (probe_urls cfg)"
      by (simp add: probe_urls_def)
    then have "probe_urls cfg ! i \<in> set (probe_urls cfg)"
      by (rule nth_mem)
    moreover from es(2) that have "is_probe w (probe_urls cfg ! i) (sent es ! i)"
      by simp
    ultimately have "\<exists>url \<in> set (probe_urls cfg). is_probe w url (sent es ! i)"
      by (rule bexI [rotated])
    then show ?thesis
      by (rule answer [rule_format])
  qed
  from parse have p1: "\<exists>u. url_Parse w (ollamaURL cfg @ ''/api/tags'') = Inr u"
    and p2: "\<exists>u. url_Parse w (externalValidationURL cfg) = Inr u"
    and p3: "\<exists>u. url_Parse w (externalMetricsURL cfg) = Inr u"
    by (simp_all add: probe_urls_def)
  from es(3) p1 have l1: "1 \<le> length (sent es)"
    by (rule mp)
  then have "0 < length (sent es)"
    by arith
  then have "probe_ok w (sent es ! 0)"
    by (rule ok)
  with es(4) l1 p2 have l2: "2 \<le> length (sent es)"
    by simp
  then have "0 < length (sent es)" and "1 < length (sent es)"
    by arith+
  then have "probe_ok w (sent es ! 0)" and "probe_ok w (sent es ! 1)"
    by (simp_all add: ok)
  with es(5) l2 p3 have "length (sent es) = 3"
    by simp
  moreover from ok have "list_all (probe_ok w) (sent es)"
    by (simp add: list_all_length)
  ultimately show ?thesis
    using es(6) by simp
qed

text \<open>
  C8. The health check sends its probes in the order backend model listing, validation
  URL, metrics URL, each a GET of the configured URL, at most once: the first whenever its
  URL parses, each later one whenever the ones before were answered with status 200 and
  its own URL parses, and none after a probe that was not answered 200. It returns no
  error if and only if it sent the three probes and each was answered 200; it does so
  whenever the three URLs parse and every GET of one of them is answered 200. An error it
  returns names the service whose probe failed, followed by the cause. When the check that
  \<^verbatim>\<open>main\<close> runs on the loaded configuration returns an error, \<^verbatim>\<open>main\<close> sends nothing more, never
  calls \<^verbatim>\<open>ListenAndServe\<close> and ends with \<^verbatim>\<open>os.Exit(1)\<close>; when it returns none, as it does when the
  three services of the loaded configuration are healthy, \<^verbatim>\<open>main\<close> calls \<^verbatim>\<open>ListenAndServe\<close> once,
  on the configured port.
\<close>

theorem health_check_gates_startup:
  fixes cfg :: config and w :: "'w world_scheme" and s :: state
    and env :: "string \<Rightarrow> string" and s0 :: state
  defines "err \<equiv> fst (validateExternalServices cfg w s)"
  defines "ps \<equiv> events s (snd (validateExternalServices cfg w s))"
  defines "cfg0 \<equiv> fst (main_config env w s0)"
  defines "err0 \<equiv> fst (validateExternalServices cfg0 w (snd (main_config env w s0)))"
  defines "es \<equiv> events s0 (main env w s0)"
  shows "(err = None \<longleftrightarrow> length (sent ps) = 3 \<and> list_all (probe_ok w) (sent ps)) \<and>
         length (sent ps) \<le> 3 \<and>
         (\<forall>i < length (sent ps). is_probe w (probe_urls cfg ! i) (sent ps ! i)) \<and>
         (\<forall>e. err = Some e \<longrightarrow>
            (\<exists>cause. e = ''Ollama service validation failed: '' @ cause \<or>
                     e = ''External validation service validation failed: '' @ cause \<or>
                     e = ''External metrics service validation failed: '' @ cause)) \<and>
         (err0 \<noteq> None \<longrightarrow>
            listening es = [] \<and> exits es = [1] \<and> last es = Exit 1 \<and> length (sent es) \<le> 3) \<and>
         (err0 = None \<longrightarrow>
            listening es = ['':'' @ proxyPort cfg0] \<and> length (sent es) = 3) \<and>
         ((\<exists>u. url_Parse w (ollamaURL cfg @ ''/api/tags'') = Inr u) \<longrightarrow>
            1 \<le> length (sent ps)) \<and>
         (1 \<le> length (sent ps) \<and> probe_ok w (sent ps ! 0) \<and>
          (\<exists>u. url_Parse w (externalValidationURL cfg) = Inr u) \<longrightarrow>
            2 \<le> length (sent ps)) \<and>
         (2 \<le> length (sent ps) \<and> probe_ok w (sent ps ! 0) \<and> probe_ok w (sent ps ! 1) \<and>
          (\<exists>u. url_Parse w (externalMetricsURL cfg) = Inr u) \<longrightarrow>
            length (sent ps) = 3) \<and>
         list_all (probe_ok w) (butlast (sent ps)) \<and>
         ((\<forall>url \<in> set (probe_urls cfg). \<exists>u. url_Parse w url = Inr u) \<and>
          (\<forall>call. (\<exists>url \<in> set (probe_urls cfg). is_probe w url call) \<longrightarrow> probe_ok w call) \<longrightarrow>
            err = None \<and> length (sent ps) = 3 \<and> list_all (probe_ok w) (sent ps)) \<and>
         ((\<forall>url \<in> set (probe_urls cfg0). \<exists>u. url_Parse w url = Inr u) \<and>
          (\<forall>call. (\<exists>url \<in> set (probe_urls cfg0). is_probe w url call) \<longrightarrow> probe_ok w call) \<longrightarrow>
            err0 = None \<and> listening es = ['':'' @ proxyPort cfg0] \<and> exits es =
              (case ListenAndServe_error w ('':'' @ proxyPort cfg0) of None \<Rightarrow> [] | Some e \<Rightarrow> [1]))"
proof -
  from validateExternalServices_run [of cfg w s] obtain vs where
    vs: "trace (snd (validateExternalServices cfg w s)) = trace s @ vs"
      "length (sent vs) \<le> 3"
      "\<forall>i < length (sent vs). is_probe w (probe_urls cfg ! i) (sent vs ! i)"
      "fst (validateExternalServices cfg w s) = None \<longleftrightarrow>
         length (sent vs) = 3 \<and> list_all (probe_ok w) (sent vs)"
      "\<forall>e. fst (validateExternalServices cfg w s) = Some e \<longrightarrow>
         (\<exists>cause. e = ''Ollama service validation failed: '' @ cause \<or>
                  e = ''External validation service validation failed: '' @ cause \<or>
                  e = ''External metrics service validation failed: '' @ cause)"
      "(\<exists>u. url_Parse w (ollamaURL cfg @ ''/api/tags'') = Inr u) \<longrightarrow> 1 \<le> length (sent vs)"
      "1 \<le> length (sent vs) \<and> probe_ok w (sent vs ! 0) \<and>
         (\<exists>u. url_Parse w (externalValidationURL cfg) = Inr u) \<longrightarrow> 2 \<le> length (sent vs)"
      "2 \<le> length (sent vs) \<and> probe_ok w (sent vs ! 0) \<and> probe_ok w (sent vs ! 1) \<and>
         (\<exists>u. url_Parse w (externalMetricsURL cfg) = Inr u) \<longrightarrow> length (sent vs) = 3"
      "list_all (probe_ok w) (butlast (sent vs))"
    by (elim exE conjE) (rule that, assumption+)
  from vs(1) have ps: "ps = vs"
    unfolding ps_def by (rule events_append)
  from vs(2-5) have check:
    "(err = None \<longleftrightarrow> length (sent ps) = 3 \<and> list_all (probe_ok w) (sent ps)) \<and>
     length (sent ps) \<le> 3 \<and>
     (\<forall>i < length (sent ps). is_probe w (probe_urls cfg ! i) (sent ps ! i)) \<and>
     (\<forall>e. err = Some e \<longrightarrow>
        (\<exists>cause. e = ''Ollama service validation failed: '' @ cause \<or>
                 e = ''External validation service validation failed: '' @ cause \<or>
                 e = ''External metrics service validation failed: '' @ cause))"
    unfolding err_def ps by simp
  from vs(6-9) have progress:
    "((\<exists>u. url_Parse w (ollamaURL cfg @ ''/api/tags'') = Inr u) \<longrightarrow>
        1 \<le> length (sent ps)) \<and>
     (1 \<le> length (sent ps) \<and> probe_ok w (sent ps ! 0) \<and>
      (\<exists>u. url_Parse w (externalValidationURL cfg) = Inr u) \<longrightarrow>
        2 \<le> length (sent ps)) \<and>
     (2 \<le> length (sent ps) \<and> probe_ok w (sent ps ! 0) \<and> probe_ok w (sent ps ! 1) \<and>
      (\<exists>u. url_Parse w (externalMetricsURL cfg) = Inr u) \<longrightarrow>
        length (sent ps) = 3) \<and>
     list_all (probe_ok w) (butlast (sent ps))"
    unfolding ps by (intro conjI)
  have healthy:
    "(\<forall>url \<in> set (probe_urls cfg). \<exists>u. url_Parse w url = Inr u) \<and>
     (\<forall>call. (\<exists>url \<in> set (probe_urls cfg). is_probe w url call) \<longrightarrow> probe_ok w call) \<longrightarrow>
       err = None \<and> length (sent ps) = 3 \<and> list_all (probe_ok w) (sent ps)"
  proof
    assume "(\<forall>url \<in> set (probe_urls cfg). \<exists>u. url_Parse w url = Inr u) \<and>
      (\<forall>call. (\<exists>url \<in> set (probe_urls cfg). is_probe w url call) \<longrightarrow> probe_ok w call)"
    then have "fst (validateExternalServices cfg w s) = None"
      by (intro healthy_check_passes) simp_all
    with vs(4) show "err = None \<and> length (sent ps) = 3 \<and> list_all (probe_ok w) (sent ps)"
      unfolding err_def ps by simp
  qed
  define s1 where "s1 = snd (main_config env w s0)"
  define s2 where "s2 = snd (validateExternalServices cfg0 w s1)"
  from main_config_run [of env w s0, folded s1_def] obtain cs where
    cs: "trace s1 = trace s0 @ cs" "sent cs = []" "listening cs = []" "exits cs = []"
    by (elim exE conjE) (rule that, assumption+)
  from validateExternalServices_run [of cfg0 w s1, folded s2_def] obtain ws where
    ws: "trace s2 = trace s1 @ ws" "listening ws = []" "exits ws = []"
      "length (sent ws) \<le> 3"
      "fst (validateExternalServices cfg0 w s1) = None \<longleftrightarrow>
         length (sent ws) = 3 \<and> list_all (probe_ok w) (sent ws)"
    by (elim exE conjE) (rule that, assumption+)
  have err0: "err0 = fst (validateExternalServices cfg0 w s1)"
    by (simp add: err0_def s1_def)
  have main: "main env w s0 =
    (case err0 of
       Some e \<Rightarrow>
         emit (Exit 1) (Error w ''Failed to validate external services'' (Some e) Map.empty s2)
     | None \<Rightarrow>
        (case ListenAndServe_error w ('':'' @ proxyPort cfg0) of
           None \<Rightarrow>
             emit (ListenAndServe ('':'' @ proxyPort cfg0))
               (Info w ''Starting Ollama proxy server''
                  [''port'' \<mapsto> StringValue (proxyPort cfg0)] (emit (HandleFunc ''/'') s2))
         | Some e \<Rightarrow>
             emit (Exit 1) (Error w ''Failed to start server'' (Some e) Map.empty
               (emit (ListenAndServe ('':'' @ proxyPort cfg0))
                  (Info w ''Starting Ollama proxy server''
                     [''port'' \<mapsto> StringValue (proxyPort cfg0)] (emit (HandleFunc ''/'') s2))))))"
    unfolding err0_def s2_def s1_def cfg0_def
    by (simp add: main_def Let_def split_beta split: option.splits prod.splits)
  have failed: "err0 \<noteq> None \<longrightarrow>
      listening es = [] \<and> exits es = [1] \<and> last es = Exit 1 \<and> length (sent es) \<le> 3"
  proof
    assume "err0 \<noteq> None"
    then obtain e where e: "err0 = Some e"
      by auto
    then have "\<exists>l. trace (main env w s0) = trace s0 @ cs @ ws @ [Println l, Exit 1]"
      using cs(1) ws(1) by (simp add: main Error_def)
    then obtain l where "es = cs @ ws @ [Println l, Exit 1]"
      unfolding es_def by (auto simp: events_def)
    with cs ws show "listening es = [] \<and> exits es = [1] \<and> last es = Exit 1 \<and>
        length (sent es) \<le> 3"
      by simp
  qed
  have passed: "listening es = ['':'' @ proxyPort cfg0] \<and> length (sent es) = 3 \<and>
      exits es = (case ListenAndServe_error w ('':'' @ proxyPort cfg0) of
                    None \<Rightarrow> [] | Some e \<Rightarrow> [1])"
    if none: "err0 = None"
  proof -
    from none have "\<exists>ls. trace (main env w s0) =
        trace s0 @ cs @ ws @ HandleFunc ''/'' # ls \<and>
        listening ls = ['':'' @ proxyPort cfg0] \<and> sent ls = [] \<and>
        exits ls = (case ListenAndServe_error w ('':'' @ proxyPort cfg0) of
                      None \<Rightarrow> [] | Some e \<Rightarrow> [1])"
      using cs(1) ws(1) by (auto simp: main Info_def Error_def split: option.splits)
    then obtain ls where "es = cs @ ws @ HandleFunc ''/'' # ls"
      and "listening ls = ['':'' @ proxyPort cfg0]" and "sent ls = []"
      and "exits ls = (case ListenAndServe_error w ('':'' @ proxyPort cfg0) of
                         None \<Rightarrow> [] | Some e \<Rightarrow> [1])"
      unfolding es_def by (auto simp: events_def)
    with cs ws none err0 show ?thesis
      by simp
  qed
  then have passed': "err0 = None \<longrightarrow>
      listening es = ['':'' @ proxyPort cfg0] \<and> length (sent es) = 3"
    by simp
  have started:
    "(\<forall>url \<in> set (probe_urls cfg0). \<exists>u. url_Parse w url = Inr u) \<and>
     (\<forall>call. (\<exists>url \<in> set (probe_urls cfg0). is_probe w url call) \<longrightarrow> probe_ok w call) \<longrightarrow>
       err0 = None \<and> listening es = ['':'' @ proxyPort cfg0] \<and> exits es =
         (case ListenAndServe_error w ('':'' @ proxyPort cfg0) of None \<Rightarrow> [] | Some e \<Rightarrow> [1])"
  proof
    assume "(\<forall>url \<in> set (probe_urls cfg0). \<exists>u. url_Parse w url = Inr u) \<and>
      (\<forall>call. (\<exists>url \<in> set (probe_urls cfg0). is_probe w url call) \<longrightarrow> probe_ok w call)"
    then have "fst (validateExternalServices cfg0 w s1) = None"
      by (intro healthy_check_passes) simp_all
    then have "err0 = None"
      by (simp add: err0)
    with passed show "err0 = None \<and> listening es = ['':'' @ proxyPort cfg0] \<and> exits es =
        (case ListenAndServe_error w ('':'' @ proxyPort cfg0) of None \<Rightarrow> [] | Some e \<Rightarrow> [1])"
      by simp
  qed
  from check failed passed' progress healthy started show ?thesis
    by (intro conjI) (elim conjE, assumption)+
qed

text \<open>
  With the services of the example all answering their probes 200, the three URLs of the
  default configuration parse and every GET is answered 200: the check returns no error
  after three probes and \<^verbatim>\<open>main\<close> calls \<^verbatim>\<open>ListenAndServe\<close> on port 8080. With the metrics service
  answering its probe 401, the check sends the three probes and returns an error that
  names the metrics service; \<^verbatim>\<open>main\<close> exits with code 1 and opens no listener.
\<close>

theorem health_check_gates_startup_witness:
  "fst (validateExternalServices example_config example_world initial_state) = None \<and>
   length (sent (events initial_state
     (snd (validateExternalServices example_config example_world initial_state)))) = 3 \<and>
   listening (events initial_state (main (\<lambda>key. '''') example_world initial_state)) = ['':8080''] \<and>
   exits (events initial_state (main (\<lambda>key. '''') example_world initial_state)) = [] \<and>
   fst (validateExternalServices (fst (main_config (\<lambda>key. '''') unhealthy_world initial_state))
      unhealthy_world (snd (main_config (\<lambda>key. '''') unhealthy_world initial_state)))
     = Some (''External metrics service validation failed: ''
             @ ''metrics service returned non-OK status: 401'') \<and>
   listening (events initial_state (main (\<lambda>key. '''') unhealthy_world initial_state)) = [] \<and>
   exits (events initial_state (main (\<lambda>key. '''') unhealthy_world initial_state)) = [1] \<and>
   last (events initial_state (main (\<lambda>key. '''') unhealthy_world initial_state)) = Exit 1 \<and>
   length (sent (events initial_state (main (\<lambda>key. '''') unhealthy_world initial_state))) \<le> 3"
proof -
  have cfg0: "fst (main_config (\<lambda>key. '''') example_world initial_state) = example_config"
    by (simp add: example_defs pipeline_defs main_config_def)
  have parse: "\<forall>url \<in> set (probe_urls example_config). \<exists>u. url_Parse example_world url = Inr u"
    by (simp add: probe_urls_def example_defs pipeline_defs)
  have answer: "\<forall>call. (\<exists>url \<in> set (probe_urls example_config). is_probe example_world url call)
      \<longrightarrow> probe_ok example_world call"
    by (auto simp: is_probe_def probe_ok_def example_world_def json.defs world.defs)
  have port: "proxyPort example_config = ''8080''"
    by (simp add: example_defs pipeline_defs)
  have listen: "ListenAndServe_error example_world '':8080'' = None"
    by (simp add: example_world_def json.defs world.defs)
  have err: "fst (validateExternalServices
      (fst (main_config (\<lambda>key. '''') unhealthy_world initial_state))
      unhealthy_world (snd (main_config (\<lambda>key. '''') unhealthy_world initial_state)))
     = Some (''External metrics service validation failed: ''
             @ ''metrics service returned non-OK status: 401'')"
    by (simp add: unhealthy_world_def example_defs pipeline_defs main_config_def
        validateExternalServices_def
        validateOllamaService_def validateExternalValidationService_def
        validateExternalMetricsService_def Sprintf_d_def digits.simps split_beta)
  from health_check_gates_startup
    [where env = "\<lambda>key. ''''" and w = example_world and ?s0.0 = initial_state
       and cfg = example_config and s = initial_state]
    cfg0 parse answer port listen
  have healthy:
    "fst (validateExternalServices example_config example_world initial_state) = None \<and>
     length (sent (events initial_state
       (snd (validateExternalServices example_config example_world initial_state)))) = 3 \<and>
     listening (events initial_state (main (\<lambda>key. '''') example_world initial_state)) = ['':8080''] \<and>
     exits (events initial_state (main (\<lambda>key. '''') example_world initial_state)) = []"
    by simp
  from health_check_gates_startup
    [where env = "\<lambda>key. ''''" and w = unhealthy_world and ?s0.0 = initial_state] err
  have "listening (events initial_state (main (\<lambda>key. '''') unhealthy_world initial_state)) = [] \<and>
   exits (events initial_state (main (\<lambda>key. '''') unhealthy_world initial_state)) = [1] \<and>
   last (events initial_state (main (\<lambda>key. '''') unhealthy_world initial_state)) = Exit 1 \<and>
   length (sent (events initial_state (main (\<lambda>key. '''') unhealthy_world initial_state))) \<le> 3"
    by simp
  with healthy err show ?thesis
    by simp
qed

end
